theory Spec2Isabelle
  imports Complex_Main
begin

section \<open>JavaScript numbers\<close>

text \<open>
  A JavaScript \<^verbatim>\<open>number\<close> is an IEEE-754 binary64 value. The finite ones are rationals;
  the only place of the plan progression code where a non-integer arises is
  \<^verbatim>\<open>Math.round((completedDaysCount / totalDays) * 100)\<close>, so the rounding of the quotient
  and of the product to the nearest double (ties to even, 53 significant bits) is
  written out. Integers of the size of a day count are doubles already. Exponent
  overflow and subnormal numbers cannot arise from these operands and are not modelled.
\<close>

datatype number = Num rat | PosInfinity | NaN

text \<open>The number of binary digits of a positive integer.\<close>

function bit_length :: "int \<Rightarrow> nat" where
  "bit_length n = (if n \<le> 0 then 0 else Suc (bit_length (n div 2)))"
  by pat_completeness auto
termination
  by (relation "measure nat") auto

declare bit_length.simps [simp del]

definition pow2 :: "int \<Rightarrow> rat" where
  "pow2 k = (if 0 \<le> k then 2 ^ nat k else 1 / 2 ^ nat (- k))"

text \<open>The binary exponent \<open>\<lfloor>log\<^sub>2 x\<rfloor>\<close> of a positive rational.\<close>

definition exponent_of :: "rat \<Rightarrow> int" where
  "exponent_of x =
     (if 1 \<le> x then int (bit_length \<lfloor>x\<rfloor>) - 1
      else - int (bit_length (\<lceil>1 / x\<rceil> - 1)))"

definition round_half_even :: "rat \<Rightarrow> int" where
  "round_half_even q =
     (let n = \<lfloor>q\<rfloor>; r = q - of_int n
      in if r < 1 / 2 then n else if 1 / 2 < r then n + 1 else if even n then n else n + 1)"

text \<open>The double nearest to a rational: the significand is scaled to 53 bits and rounded.\<close>

definition to_double :: "rat \<Rightarrow> rat" where
  "to_double x =
     (if x = 0 then 0
      else let a = \<bar>x\<bar>;
               ulp = pow2 (exponent_of a - 52);
               m = of_int (round_half_even (a / ulp)) * ulp
           in if x < 0 then - m else m)"

text \<open>\<^verbatim>\<open>Math.round\<close>: the nearest integer, a tie going towards \<open>+\<infinity>\<close>.\<close>

definition Math_round :: "rat \<Rightarrow> int" where
  "Math_round x = \<lfloor>x + 1 / 2\<rfloor>"

text \<open>
  \<^verbatim>\<open>const progress = Math.round((completedDaysCount / totalDays) * 100)\<close>
  (daily-plan.service.ts, line 252). The count is the result of a \<^verbatim>\<open>count\<close> query, hence
  a natural number; a zero divisor gives \<^verbatim>\<open>NaN\<close> or \<^verbatim>\<open>Infinity\<close>, which \<^verbatim>\<open>Math.round\<close> and
  the product leave as they are.
\<close>

definition progressOf :: "nat \<Rightarrow> int \<Rightarrow> number" where
  "progressOf completedDaysCount totalDays =
     (if totalDays = 0 then (if completedDaysCount = 0 then NaN else PosInfinity)
      else Num (of_int (Math_round
             (to_double (to_double (of_nat completedDaysCount / of_int totalDays) * 100)))))"


section \<open>The persisted state\<close>

text \<open>
  The tables of \<^verbatim>\<open>prisma/schema.prisma\<close> that the plan progression code reads or writes,
  each a list of rows in insertion order. A \<^verbatim>\<open>uuid()\<close> key is a natural number drawn
  from the counter \<open>nextId\<close>. Of the table of users only the keys matter here. The
  columns \<^verbatim>\<open>startDate\<close>, \<^verbatim>\<open>endDate\<close>, \<^verbatim>\<open>createdAt\<close> and \<^verbatim>\<open>updatedAt\<close> hold times that no
  operation below reads: a date is checked where it is written and is not kept. The state
  also holds \<open>clock\<close>, the time that \<^verbatim>\<open>new Date()\<close> reads, in milliseconds since the epoch.
\<close>

type_synonym uuid = nat

datatype Track = SERVICE_BASED | PRODUCT_BASED | FAANG | BIG_4 | GENERIC

record User =
  u_id :: uuid

record LearningPlan =
  lp_id :: uuid
  lp_userId :: uuid
  track :: Track
  durationDays :: int
  isActive :: bool
  currentDay :: int
  progress :: number

record DailyPlan =
  dp_id :: uuid
  learningPlanId :: uuid
  dayNumber :: int
  isUnlocked :: bool
  isCompleted :: bool
  mockInterviewId :: "uuid option"

record Resource =
  r_id :: uuid
  learningPlanDayId :: "uuid option"
  practicePlanDayId :: "uuid option"

record UserResource =
  ur_userId :: uuid
  ur_resourceId :: uuid

record Quiz =
  q_id :: uuid
  q_dailyPlanId :: uuid

record QuizAttempt =
  qa_userId :: uuid
  qa_quizId :: uuid
  qa_isCompleted :: bool

record MockInterview =
  mi_id :: uuid
  mi_userId :: uuid
  mi_isCompleted :: bool

record database =
  learningPlans :: "LearningPlan list"
  dailyPlans :: "DailyPlan list"
  resources :: "Resource list"
  userResources :: "UserResource list"
  quizzes :: "Quiz list"
  quizAttempts :: "QuizAttempt list"
  mockInterviews :: "MockInterview list"
  nextId :: uuid
  users :: "User list"
  clock :: int

text \<open>
  What a column accepts: an \<^verbatim>\<open>Int\<close> column a 32-bit signed integer, a \<^verbatim>\<open>Float\<close> column a
  finite double, a \<^verbatim>\<open>DateTime\<close> column a valid \<^verbatim>\<open>Date\<close>, whose time value is at most
  \<open>8.64 * 10\<^sup>1\<^sup>5\<close> milliseconds from the epoch. A write of any other value throws. The values
  that rows hold are of these types, and so are the values computed from them by a
  minimum or a range check; a write is checked where the value comes from the caller
  (\<^verbatim>\<open>durationDays\<close>, \<^verbatim>\<open>currentDay\<close>, \<^verbatim>\<open>progress\<close>, the day numbers up to a new duration), is a
  date, or is the quotient that \<^verbatim>\<open>completeDailyPlan\<close> computes.
\<close>

definition Int_ok :: "int \<Rightarrow> bool" where
  "Int_ok n \<longleftrightarrow> - 2147483648 \<le> n \<and> n \<le> 2147483647"

definition Float_ok :: "number \<Rightarrow> bool" where
  "Float_ok x = (case x of Num _ \<Rightarrow> True | PosInfinity \<Rightarrow> False | NaN \<Rightarrow> False)"

definition Date_ok :: "rat \<Rightarrow> bool" where
  "Date_ok t \<longleftrightarrow> \<bar>t\<bar> \<le> 8640000000000000"

text \<open>\<^verbatim>\<open>new ApiError(statusCode, message)\<close>\<close>

datatype ApiError = ApiError int string

text \<open>
  An operation takes the state and returns its outcome with the state it leaves: the
  error thrown or the value returned. A transaction that throws leaves the state it
  started from.
\<close>

type_synonym 'a outcome = "(ApiError + 'a) \<times> database"

subsection \<open>Queries and writes\<close>

definition learningPlan_findUnique :: "database \<Rightarrow> uuid \<Rightarrow> LearningPlan option" where
  "learningPlan_findUnique db i = find (\<lambda>p. lp_id p = i) (learningPlans db)"

definition dailyPlan_findUnique :: "database \<Rightarrow> uuid \<Rightarrow> DailyPlan option" where
  "dailyPlan_findUnique db i = find (\<lambda>d. dp_id d = i) (dailyPlans db)"

definition dailyPlan_findFirst :: "database \<Rightarrow> uuid \<Rightarrow> int \<Rightarrow> DailyPlan option" where
  "dailyPlan_findFirst db pid n =
     find (\<lambda>d. learningPlanId d = pid \<and> dayNumber d = n) (dailyPlans db)"

text \<open>\<^verbatim>\<open>include: { dailyPlans: { orderBy: { dayNumber: 'asc' } } }\<close>\<close>

definition include_dailyPlans :: "database \<Rightarrow> uuid \<Rightarrow> DailyPlan list" where
  "include_dailyPlans db pid =
     sort_key dayNumber (filter (\<lambda>d. learningPlanId d = pid) (dailyPlans db))"

text \<open>\<^verbatim>\<open>update\<close> throws when no row has the key: the result is \<open>None\<close> then.\<close>

definition learningPlan_update ::
  "database \<Rightarrow> uuid \<Rightarrow> (LearningPlan \<Rightarrow> LearningPlan) \<Rightarrow> (LearningPlan \<times> database) option" where
  "learningPlan_update db i f =
     (case find (\<lambda>p. lp_id p = i) (learningPlans db) of
        None \<Rightarrow> None
      | Some p \<Rightarrow>
          Some (f p, db\<lparr>learningPlans :=
                         map (\<lambda>p. if lp_id p = i then f p else p) (learningPlans db)\<rparr>))"

definition dailyPlan_update ::
  "database \<Rightarrow> uuid \<Rightarrow> (DailyPlan \<Rightarrow> DailyPlan) \<Rightarrow> (DailyPlan \<times> database) option" where
  "dailyPlan_update db i f =
     (case find (\<lambda>d. dp_id d = i) (dailyPlans db) of
        None \<Rightarrow> None
      | Some d \<Rightarrow>
          Some (f d, db\<lparr>dailyPlans :=
                         map (\<lambda>d. if dp_id d = i then f d else d) (dailyPlans db)\<rparr>))"

text \<open>\<^verbatim>\<open>updateMany\<close> writes every row that matches, and none when there is none.\<close>

definition dailyPlan_updateMany ::
  "database \<Rightarrow> (DailyPlan \<Rightarrow> bool) \<Rightarrow> (DailyPlan \<Rightarrow> DailyPlan) \<Rightarrow> database" where
  "dailyPlan_updateMany db wh f =
     db\<lparr>dailyPlans := map (\<lambda>d. if wh d then f d else d) (dailyPlans db)\<rparr>"

text \<open>
  \<^verbatim>\<open>deleteMany\<close> on daily plans. The foreign keys of the migration act on the rows that
  refer to a deleted day: a quiz and its attempts go with it (\<^verbatim>\<open>ON DELETE CASCADE\<close>), a
  resource loses its reference (\<^verbatim>\<open>ON DELETE SET NULL\<close>).
\<close>

definition dailyPlan_deleteMany :: "database \<Rightarrow> (DailyPlan \<Rightarrow> bool) \<Rightarrow> database" where
  "dailyPlan_deleteMany db wh =
     (let gone = map dp_id (filter wh (dailyPlans db));
          goneQuizzes = map q_id (filter (\<lambda>q. q_dailyPlanId q \<in> set gone) (quizzes db));
          detach = (\<lambda>ref. case ref of None \<Rightarrow> None
                           | Some i \<Rightarrow> if i \<in> set gone then None else Some i)
      in db\<lparr>dailyPlans := filter (\<lambda>d. \<not> wh d) (dailyPlans db),
            quizzes := filter (\<lambda>q. q_dailyPlanId q \<notin> set gone) (quizzes db),
            quizAttempts := filter (\<lambda>a. qa_quizId a \<notin> set goneQuizzes) (quizAttempts db),
            resources := map (\<lambda>r. r\<lparr>learningPlanDayId := detach (learningPlanDayId r),
                                     practicePlanDayId := detach (practicePlanDayId r)\<rparr>)
                             (resources db)\<rparr>)"

text \<open>
  \<^verbatim>\<open>dailyPlan.create\<close>: the row gets a fresh key. The insertion throws (\<open>None\<close>) when the
  day number is no \<^verbatim>\<open>Int\<close>, and when the plan has a row of that day number already
  (\<^verbatim>\<open>@@unique([learningPlanId, dayNumber])\<close>).
\<close>

definition dailyPlan_create ::
  "database \<Rightarrow> uuid \<Rightarrow> int \<Rightarrow> bool \<Rightarrow> bool \<Rightarrow> database option" where
  "dailyPlan_create db pid day unl compl =
     (if Int_ok day \<and> \<not> list_ex (\<lambda>d. learningPlanId d = pid \<and> dayNumber d = day) (dailyPlans db)
      then Some (db\<lparr>dailyPlans := dailyPlans db @
                    [\<lparr>dp_id = nextId db, learningPlanId = pid, dayNumber = day,
                      isUnlocked = unl, isCompleted = compl, mockInterviewId = None\<rparr>],
                   nextId := Suc (nextId db)\<rparr>)
      else None)"

text \<open>
  \<^verbatim>\<open>learningPlan.create\<close> with the data of \<^verbatim>\<open>createLearningPlan\<close> (lines 27-38): the row gets a
  fresh key. The insertion throws (\<open>None\<close>) when no user has the key \<^verbatim>\<open>userId\<close> (the foreign
  key of \<^verbatim>\<open>learning_plans\<close>), when \<^verbatim>\<open>durationDays\<close> is no \<^verbatim>\<open>Int\<close>, and when \<^verbatim>\<open>endDate\<close> is
  no valid date.
\<close>

definition learningPlan_create ::
  "database \<Rightarrow> uuid \<Rightarrow> Track \<Rightarrow> int \<Rightarrow> rat \<Rightarrow> (LearningPlan \<times> database) option" where
  "learningPlan_create db userId trk d endDate =
     (if list_ex (\<lambda>u. u_id u = userId) (users db) \<and> Int_ok d \<and> Date_ok endDate
      then let p = \<lparr>lp_id = nextId db, lp_userId = userId, track = trk, durationDays = d,
                     isActive = True, currentDay = 1, progress = Num 0\<rparr>
           in Some (p, db\<lparr>learningPlans := learningPlans db @ [p], nextId := Suc (nextId db)\<rparr>)
      else None)"

section \<open>learning-plan.service.ts\<close>

text \<open>
  The loop \<^verbatim>\<open>for (let day = from; day <= lastDay; day++) await tx.dailyPlan.create(...)\<close>
  of \<^verbatim>\<open>createLearningPlan\<close> (lines 41-51, \<^verbatim>\<open>isUnlocked: day === 1\<close>) and of
  \<^verbatim>\<open>handleDurationChange\<close> (lines 271-280, \<^verbatim>\<open>isUnlocked: false\<close>); \<open>unl\<close> is the value
  given to \<^verbatim>\<open>isUnlocked\<close> as a function of the day.
\<close>

function createDays ::
  "(int \<Rightarrow> bool) \<Rightarrow> uuid \<Rightarrow> int \<Rightarrow> int \<Rightarrow> database \<Rightarrow> database option" where
  "createDays unl pid day lastDay tx =
     (if day \<le> lastDay
      then (case dailyPlan_create tx pid day (unl day) False of
              None \<Rightarrow> None
            | Some tx' \<Rightarrow> createDays unl pid (day + 1) lastDay tx')
      else Some tx)"
  by pat_completeness auto
termination
  by (relation "measure (\<lambda>(unl, pid, day, lastDay, tx). nat (lastDay + 1 - day))") auto

declare createDays.simps [simp del]

text \<open>
  \<^verbatim>\<open>createLearningPlan\<close> (lines 9-90). \<^verbatim>\<open>durationDays\<close> is taken to be an integer.
  \<^verbatim>\<open>endDate.setDate(endDate.getDate() + durationDays)\<close> moves the date by whole days of
  local time, taken here in UTC: the time value is the clock's plus \<open>86400000\<close> per day,
  or no valid date beyond the range of \<^verbatim>\<open>Date\<close>. Whatever the transaction throws becomes
  the error of status 500 and nothing is written. \<^verbatim>\<open>populateDailyPlans\<close> only reads the rows
  (its body is a placeholder), so the value returned is the plan as the transaction
  left it, with its days in ascending order.
\<close>

definition createLearningPlan ::
  "database \<Rightarrow> uuid \<Rightarrow> Track \<Rightarrow> int \<Rightarrow> (LearningPlan \<times> DailyPlan list) outcome" where
  "createLearningPlan db userId trk d =
     (let endDate = of_int (clock db + d * 86400000)
      in case learningPlan_create db userId trk d endDate of
           None \<Rightarrow> (Inl (ApiError 500 ''Error creating learning plan''), db)
         | Some (newLearningPlan, tx) \<Rightarrow>
             (case createDays (\<lambda>day. day = 1) (lp_id newLearningPlan) 1 d tx of
                None \<Rightarrow> (Inl (ApiError 500 ''Error creating learning plan''), db)
              | Some tx' \<Rightarrow>
                  (case learningPlan_findUnique tx' (lp_id newLearningPlan) of
                     None \<Rightarrow> (Inl (ApiError 500 ''Failed to create learning plan''), tx')
                   | Some learningPlan \<Rightarrow>
                       (Inr (learningPlan, include_dailyPlans tx' (lp_id learningPlan)), tx'))))"

text \<open>
  The fields of \<^verbatim>\<open>updateData\<close> (\<^verbatim>\<open>Partial<{track, durationDays, isActive}>\<close>): an absent
  field is \<open>None\<close> and is not written.
\<close>

record UpdateData =
  ud_track :: "Track option"
  ud_durationDays :: "int option"
  ud_isActive :: "bool option"

definition write_updateData :: "UpdateData \<Rightarrow> LearningPlan \<Rightarrow> LearningPlan" where
  "write_updateData u p =
     p\<lparr>track := (case ud_track u of None \<Rightarrow> track p | Some t \<Rightarrow> t),
       durationDays := (case ud_durationDays u of None \<Rightarrow> durationDays p | Some n \<Rightarrow> n),
       isActive := (case ud_isActive u of None \<Rightarrow> isActive p | Some b \<Rightarrow> b)\<rparr>"

text \<open>The write of \<^verbatim>\<open>updateData\<close> throws when its \<^verbatim>\<open>durationDays\<close> is no \<^verbatim>\<open>Int\<close>.\<close>

definition valid_updateData :: "UpdateData \<Rightarrow> bool" where
  "valid_updateData u = (case ud_durationDays u of None \<Rightarrow> True | Some n \<Rightarrow> Int_ok n)"

text \<open>
  \<^verbatim>\<open>new Date(new Date().getTime() + newDuration * 24 * 60 * 60 * 1000)\<close> (line 265): the
  time value, each product and the sum rounded to a double.
\<close>

definition endDate_of :: "database \<Rightarrow> int \<Rightarrow> rat" where
  "endDate_of db newDuration =
     to_double (of_int (clock db) +
       to_double (to_double (to_double (to_double (of_int newDuration * 24) * 60) * 60) * 1000))"

text \<open>
  \<^verbatim>\<open>handleDurationChange\<close> (lines 251-308): one transaction; whatever it throws becomes the
  error of status 500 and nothing is written. The update at the start writes \<^verbatim>\<open>updateData\<close>
  and the new \<^verbatim>\<open>endDate\<close>; the final \<^verbatim>\<open>findUnique\<close> reads the row it has written. The
  function is private and its parameter \<^verbatim>\<open>updateData: any\<close> receives the \<^verbatim>\<open>updateData\<close> of
  \<^verbatim>\<open>updateLearningPlan\<close>, its only caller, whose type has the three fields above.
\<close>

definition handleDurationChange ::
  "database \<Rightarrow> uuid \<Rightarrow> int \<Rightarrow> int \<Rightarrow> UpdateData \<Rightarrow> (LearningPlan \<times> DailyPlan list) outcome" where
  "handleDurationChange db pid oldDuration newDuration updateData =
     (case (if valid_updateData updateData \<and> Date_ok (endDate_of db newDuration)
            then learningPlan_update db pid (write_updateData updateData)
            else None) of
        None \<Rightarrow> (Inl (ApiError 500 ''Error updating learning plan duration''), db)
      | Some (updatedPlan, tx) \<Rightarrow>
          (case (if newDuration > oldDuration
                 then createDays (\<lambda>day. False) pid (oldDuration + 1) newDuration tx
                 else if newDuration < oldDuration
                 then Some (dailyPlan_deleteMany tx
                              (\<lambda>d. learningPlanId d = pid \<and> dayNumber d > newDuration))
                 else Some tx) of
             None \<Rightarrow> (Inl (ApiError 500 ''Error updating learning plan duration''), db)
           | Some tx' \<Rightarrow>
               (case learningPlan_findUnique tx' pid of
                  None \<Rightarrow> (Inl (ApiError 500 ''Error updating learning plan duration''), db)
                | Some learningPlan \<Rightarrow>
                    (Inr (learningPlan, include_dailyPlans tx' pid), tx'))))"

text \<open>
  \<^verbatim>\<open>updateLearningPlan\<close> (lines 195-246). The test
  \<^verbatim>\<open>updateData.durationDays && updateData.durationDays !== existingPlan.durationDays\<close> is
  false for an absent field and for 0.
\<close>

definition updateLearningPlan ::
  "database \<Rightarrow> uuid \<Rightarrow> uuid \<Rightarrow> UpdateData \<Rightarrow> (LearningPlan \<times> DailyPlan list) outcome" where
  "updateLearningPlan db i userId updateData =
     (case learningPlan_findUnique db i of
        None \<Rightarrow> (Inl (ApiError 404 ''Learning plan not found''), db)
      | Some existingPlan \<Rightarrow>
          if lp_userId existingPlan \<noteq> userId
          then (Inl (ApiError 403 ''You do not have permission to update this learning plan''), db)
          else if (case ud_durationDays updateData of
                     None \<Rightarrow> False
                   | Some n \<Rightarrow> n \<noteq> 0 \<and> n \<noteq> durationDays existingPlan)
          then handleDurationChange db i (durationDays existingPlan)
                 (the (ud_durationDays updateData)) updateData
          else (case (if valid_updateData updateData
                      then learningPlan_update db i (write_updateData updateData)
                      else None) of
                  None \<Rightarrow> (Inl (ApiError 500 ''Error updating learning plan''), db)
                | Some (updatedLearningPlan, db') \<Rightarrow>
                    (Inr (updatedLearningPlan, include_dailyPlans db' i), db')))"

text \<open>
  The private \<^verbatim>\<open>unlockDailyPlan(learningPlanId, dayNumber)\<close> of learning-plan.service.ts
  (lines 409-424); the exported function of the same name in daily-plan.service.ts is
  \<open>unlockDailyPlan\<close> below.
\<close>

definition unlockDailyPlan_ofDay :: "database \<Rightarrow> uuid \<Rightarrow> int \<Rightarrow> database" where
  "unlockDailyPlan_ofDay db pid n =
     dailyPlan_updateMany db (\<lambda>d. learningPlanId d = pid \<and> dayNumber d = n)
       (\<lambda>d. d\<lparr>isUnlocked := True\<rparr>)"

record ProgressData =
  pd_currentDay :: "int option"
  pd_progress :: "number option"

definition write_progressData :: "ProgressData \<Rightarrow> LearningPlan \<Rightarrow> LearningPlan" where
  "write_progressData u p =
     p\<lparr>currentDay := (case pd_currentDay u of None \<Rightarrow> currentDay p | Some n \<Rightarrow> n),
       progress := (case pd_progress u of None \<Rightarrow> progress p | Some x \<Rightarrow> x)\<rparr>"

text \<open>
  The write of \<^verbatim>\<open>progressData\<close> throws when its \<^verbatim>\<open>currentDay\<close> is no \<^verbatim>\<open>Int\<close> or its \<^verbatim>\<open>progress\<close>
  is not finite.
\<close>

definition valid_progressData :: "ProgressData \<Rightarrow> bool" where
  "valid_progressData u \<longleftrightarrow>
     (case pd_currentDay u of None \<Rightarrow> True | Some n \<Rightarrow> Int_ok n) \<and>
     (case pd_progress u of None \<Rightarrow> True | Some x \<Rightarrow> Float_ok x)"

text \<open>The decimal digits of an integer, for the message of the range check.\<close>

fun digits :: "nat \<Rightarrow> string" where
  "digits n = (if n < 10 then [char_of (48 + n)] else digits (n div 10) @ [char_of (48 + n mod 10)])"

declare digits.simps [simp del]

definition string_of_int :: "int \<Rightarrow> string" where
  "string_of_int i = (if i < 0 then CHR ''-'' # digits (nat (- i)) else digits (nat i))"

text \<open>
  \<^verbatim>\<open>updateLearningPlanProgress\<close> (lines 343-404). It runs outside a transaction: the
  unlocking is written before the plan is, and stays when the write of the plan throws.
\<close>

definition updateLearningPlanProgress ::
  "database \<Rightarrow> uuid \<Rightarrow> uuid \<Rightarrow> ProgressData \<Rightarrow> (LearningPlan \<times> DailyPlan list) outcome" where
  "updateLearningPlanProgress db i userId progressData =
     (case learningPlan_findUnique db i of
        None \<Rightarrow> (Inl (ApiError 404 ''Learning plan not found''), db)
      | Some existingPlan \<Rightarrow>
          if lp_userId existingPlan \<noteq> userId
          then (Inl (ApiError 403 ''You do not have permission to update this learning plan''), db)
          else if (case pd_currentDay progressData of
                     None \<Rightarrow> False
                   | Some n \<Rightarrow> n < 1 \<or> n > durationDays existingPlan)
          then (Inl (ApiError 400 (''Current day must be between 1 and '' @
                                    string_of_int (durationDays existingPlan))), db)
          else
            let db1 = (case pd_currentDay progressData of
                         None \<Rightarrow> db
                       | Some n \<Rightarrow> if n \<noteq> 0 \<and> n > currentDay existingPlan
                                   then unlockDailyPlan_ofDay db i n else db)
            in (case (if valid_progressData progressData
                      then learningPlan_update db1 i (write_progressData progressData)
                      else None) of
                  None \<Rightarrow> (Inl (ApiError 500 ''Error updating learning plan progress''), db1)
                | Some (updatedLearningPlan, db2) \<Rightarrow>
                    (Inr (updatedLearningPlan, include_dailyPlans db2 i), db2)))"

section \<open>daily-plan.service.ts\<close>

text \<open>
  \<^verbatim>\<open>unlockDailyPlan\<close> (lines 83-136). \<^verbatim>\<open>include: { learningPlan: true }\<close> reads the parent
  row; were it missing, reading its \<^verbatim>\<open>userId\<close> would throw and the \<^verbatim>\<open>catch\<close> would turn
  that into the error of status 500.
\<close>

definition unlockDailyPlan :: "database \<Rightarrow> uuid \<Rightarrow> uuid \<Rightarrow> DailyPlan outcome" where
  "unlockDailyPlan db i userId =
     (case dailyPlan_findUnique db i of
        None \<Rightarrow> (Inl (ApiError 404 ''Daily plan not found''), db)
      | Some dailyPlan \<Rightarrow>
          (case learningPlan_findUnique db (learningPlanId dailyPlan) of
             None \<Rightarrow> (Inl (ApiError 500 ''Error unlocking daily plan''), db)
           | Some learningPlan \<Rightarrow>
               if lp_userId learningPlan \<noteq> userId
               then (Inl (ApiError 403 ''You do not have permission to update this daily plan''), db)
               else if dayNumber dailyPlan > 1 \<and>
                       (case dailyPlan_findFirst db (learningPlanId dailyPlan)
                               (dayNumber dailyPlan - 1) of
                          None \<Rightarrow> False
                        | Some previousDay \<Rightarrow> \<not> isCompleted previousDay)
               then (Inl (ApiError 400
                            ''Cannot unlock this day until the previous day is completed''), db)
               else (case dailyPlan_update db i (\<lambda>d. d\<lparr>isUnlocked := True\<rparr>) of
                       None \<Rightarrow> (Inl (ApiError 500 ''Error unlocking daily plan''), db)
                     | Some (updatedDailyPlan, db') \<Rightarrow> (Inr updatedDailyPlan, db'))))"

text \<open>The relations that \<^verbatim>\<open>completeDailyPlan\<close> includes with the day (lines 143-164).\<close>

definition learningResources :: "database \<Rightarrow> DailyPlan \<Rightarrow> Resource list" where
  "learningResources db dailyPlan =
     filter (\<lambda>r. learningPlanDayId r = Some (dp_id dailyPlan)) (resources db)"

definition practiceResources :: "database \<Rightarrow> DailyPlan \<Rightarrow> Resource list" where
  "practiceResources db dailyPlan =
     filter (\<lambda>r. practicePlanDayId r = Some (dp_id dailyPlan)) (resources db)"

definition quiz :: "database \<Rightarrow> DailyPlan \<Rightarrow> Quiz option" where
  "quiz db dailyPlan = find (\<lambda>q. q_dailyPlanId q = dp_id dailyPlan) (quizzes db)"

definition attempts :: "database \<Rightarrow> Quiz \<Rightarrow> uuid \<Rightarrow> QuizAttempt list" where
  "attempts db qz userId =
     filter (\<lambda>a. qa_quizId a = q_id qz \<and> qa_userId a = userId) (quizAttempts db)"

definition mockInterview :: "database \<Rightarrow> DailyPlan \<Rightarrow> uuid \<Rightarrow> MockInterview option" where
  "mockInterview db dailyPlan userId =
     (case mockInterviewId dailyPlan of
        None \<Rightarrow> None
      | Some m \<Rightarrow> find (\<lambda>i. mi_id i = m \<and> mi_userId i = userId) (mockInterviews db))"

text \<open>The three flags of lines 180-202.\<close>

definition allResourcesCompleted :: "database \<Rightarrow> DailyPlan \<Rightarrow> uuid \<Rightarrow> bool" where
  "allResourcesCompleted db dailyPlan userId =
     (let learningResourceIds = map r_id (learningResources db dailyPlan);
          practiceResourceIds = map r_id (practiceResources db dailyPlan);
          completedResources =
            filter (\<lambda>u. ur_userId u = userId \<and>
                         ur_resourceId u \<in> set (learningResourceIds @ practiceResourceIds))
                   (userResources db)
      in length completedResources = length learningResourceIds + length practiceResourceIds)"

definition quizCompleted :: "database \<Rightarrow> DailyPlan \<Rightarrow> uuid \<Rightarrow> bool" where
  "quizCompleted db dailyPlan userId =
     (case quiz db dailyPlan of
        None \<Rightarrow> True
      | Some qz \<Rightarrow> length (attempts db qz userId) > 0 \<and>
                   list_ex qa_isCompleted (attempts db qz userId))"

definition interviewCompleted :: "database \<Rightarrow> DailyPlan \<Rightarrow> uuid \<Rightarrow> bool" where
  "interviewCompleted db dailyPlan userId =
     (case mockInterview db dailyPlan userId of
        None \<Rightarrow> True
      | Some m \<Rightarrow> mi_isCompleted m)"

text \<open>
  The transaction of \<^verbatim>\<open>completeDailyPlan\<close> (lines 209-266): \<open>None\<close> when a write throws,
  as the write of the plan does when the progress is not finite (\<^verbatim>\<open>totalDays\<close> is 0).
  \<^verbatim>\<open>dailyPlan\<close> and its \<^verbatim>\<open>learningPlan\<close> are the rows read before the transaction.
\<close>

definition completeDailyPlan_transaction ::
  "database \<Rightarrow> uuid \<Rightarrow> DailyPlan \<Rightarrow> LearningPlan \<Rightarrow> (DailyPlan \<times> database) option" where
  "completeDailyPlan_transaction db i dailyPlan learningPlan =
     (case dailyPlan_update db i (\<lambda>d. d\<lparr>isCompleted := True\<rparr>) of
        None \<Rightarrow> None
      | Some (completed, tx1) \<Rightarrow>
          (case (if dayNumber dailyPlan < durationDays learningPlan
                 then (case dailyPlan_findFirst tx1 (learningPlanId dailyPlan)
                              (dayNumber dailyPlan + 1) of
                         None \<Rightarrow> Some tx1
                       | Some nextDay \<Rightarrow>
                           map_option snd
                             (dailyPlan_update tx1 (dp_id nextDay) (\<lambda>d. d\<lparr>isUnlocked := True\<rparr>)))
                 else Some tx1) of
             None \<Rightarrow> None
           | Some tx2 \<Rightarrow>
               let totalDays = durationDays learningPlan;
                   completedDaysCount =
                     length (filter (\<lambda>d. learningPlanId d = learningPlanId dailyPlan \<and> isCompleted d)
                               (dailyPlans tx2));
                   progress' = progressOf completedDaysCount totalDays;
                   currentDay' = min (dayNumber dailyPlan + 1) totalDays
               in if Float_ok progress'
                  then map_option (\<lambda>(_, tx3). (completed, tx3))
                         (learningPlan_update tx2 (learningPlanId dailyPlan)
                            (\<lambda>p. p\<lparr>progress := progress', currentDay := currentDay',
                                    isActive := (int completedDaysCount < totalDays)\<rparr>))
                  else None))"

text \<open>\<^verbatim>\<open>completeDailyPlan\<close> (lines 141-275).\<close>

definition completeDailyPlan :: "database \<Rightarrow> uuid \<Rightarrow> uuid \<Rightarrow> DailyPlan outcome" where
  "completeDailyPlan db i userId =
     (case dailyPlan_findUnique db i of
        None \<Rightarrow> (Inl (ApiError 404 ''Daily plan not found''), db)
      | Some dailyPlan \<Rightarrow>
          (case learningPlan_findUnique db (learningPlanId dailyPlan) of
             None \<Rightarrow> (Inl (ApiError 500 ''Error completing daily plan''), db)
           | Some learningPlan \<Rightarrow>
               if lp_userId learningPlan \<noteq> userId
               then (Inl (ApiError 403 ''You do not have permission to update this daily plan''), db)
               else if \<not> isUnlocked dailyPlan
               then (Inl (ApiError 400 ''Cannot complete a locked daily plan''), db)
               else if \<not> allResourcesCompleted db dailyPlan userId \<or>
                       \<not> quizCompleted db dailyPlan userId \<or>
                       \<not> interviewCompleted db dailyPlan userId
               then (Inl (ApiError 400
                            ''All resources, quizzes, and interviews must be completed''), db)
               else (case completeDailyPlan_transaction db i dailyPlan learningPlan of
                       None \<Rightarrow> (Inl (ApiError 500 ''Error completing daily plan''), db)
                     | Some (updatedDailyPlan, db') \<Rightarrow> (Inr updatedDailyPlan, db'))))"

section \<open>States\<close>

text \<open>
  The counter of keys lies above every key in use: what \<^verbatim>\<open>uuid()\<close> provides, a key that
  no row has or refers to.
\<close>

definition keys_fresh :: "database \<Rightarrow> bool" where
  "keys_fresh db \<longleftrightarrow>
     list_all (\<lambda>p. lp_id p < nextId db) (learningPlans db) \<and>
     list_all (\<lambda>r. dp_id r < nextId db \<and> learningPlanId r < nextId db) (dailyPlans db)"

text \<open>
  The state with no rows but the one of user 7, read on 2 November 2026, 00:00 UTC.
\<close>

definition one_user :: database where
  "one_user =
     \<lparr>learningPlans = [], dailyPlans = [], resources = [], userResources = [], quizzes = [],
      quizAttempts = [], mockInterviews = [], nextId = 0, users = [\<lparr>u_id = 7\<rparr>],
      clock = 1793577600000\<rparr>"

text \<open>
  States used as concrete inputs: a three-day plan of user 7 as \<^verbatim>\<open>createLearningPlan\<close>
  leaves it (plan 0 with the days 1, 2, 3 under the keys 1, 2, 3); the same with a quiz
  on day 1 that the user has not attempted; the same with a mock interview of the user
  on day 1 that is not completed.
\<close>

definition three_day_plan :: database where
  "three_day_plan = snd (createLearningPlan one_user 7 FAANG 3)"

definition quiz_pending :: database where
  "quiz_pending = three_day_plan\<lparr>quizzes := [\<lparr>q_id = 10, q_dailyPlanId = 1\<rparr>]\<rparr>"

definition interview_pending :: database where
  "interview_pending =
     three_day_plan\<lparr>dailyPlans := map (\<lambda>d. if dp_id d = 1 then d\<lparr>mockInterviewId := Some 20\<rparr> else d)
                                      (dailyPlans three_day_plan),
                    mockInterviews := [\<lparr>mi_id = 20, mi_userId = 7, mi_isCompleted = False\<rparr>]\<rparr>"

definition day1 :: DailyPlan where
  "day1 = \<lparr>dp_id = 1, learningPlanId = 0, dayNumber = 1, isUnlocked = True,
            isCompleted = False, mockInterviewId = None\<rparr>"

text \<open>
  The three-day plan after a progress update to day 3, which unlocks day 3 while the
  days 1 and 2 are open; and after the days 1 and 2 were completed in turn.
\<close>

definition last_day_unlocked :: database where
  "last_day_unlocked =
     snd (updateLearningPlanProgress three_day_plan 0 7
            \<lparr>pd_currentDay = Some 3, pd_progress = None\<rparr>)"

definition two_days_done :: database where
  "two_days_done = snd (completeDailyPlan (snd (completeDailyPlan three_day_plan 1 7)) 2 7)"


text \<open>
  A forty-day plan of user 7 (plan 0, day \<open>n\<close> under the key \<open>n\<close>) whose days 1 to 22 were
  completed in turn: day 23 is unlocked and open.
\<close>

definition forty_day_plan :: database where
  "forty_day_plan =
     fold (\<lambda>i db. snd (completeDailyPlan db i 7)) [1..<23]
       (snd (createLearningPlan one_user 7 FAANG 40))"

text \<open>A five-day plan of user 7 after a progress update to day 4.\<close>

definition five_day_plan_at_4 :: database where
  "five_day_plan_at_4 =
     snd (updateLearningPlanProgress (snd (createLearningPlan one_user 7 FAANG 5)) 0 7
            \<lparr>pd_currentDay = Some 4, pd_progress = None\<rparr>)"

section \<open>Lists as tables\<close>

lemma find_append_None: "find P xs = None \<Longrightarrow> find P (xs @ ys) = find P ys"
  by (induction xs) (auto split: if_splits)

lemma find_append_Some: "find P xs = Some x \<Longrightarrow> find P (xs @ ys) = Some x"
  by (induction xs) (auto split: if_splits)

lemma filter_none: "\<forall>x\<in>set xs. \<not> P x \<Longrightarrow> filter P xs = []"
  by (induction xs) auto

lemma filter_all: "\<forall>x\<in>set xs. P x \<Longrightarrow> filter P xs = xs"
  by (induction xs) auto

lemma find_map_preserved:
  "(\<And>x. P (f x) = P x) \<Longrightarrow> find P (map f xs) = map_option f (find P xs)"
  by (induction xs) auto

lemma find_Some_holds: "find P xs = Some x \<Longrightarrow> P x \<and> x \<in> set xs"
  by (induction xs) (auto split: if_splits)

lemma set_map_if_cases:
  "r \<in> set (map (\<lambda>d. if P d then f d else d) xs) \<Longrightarrow>
   (\<exists>d\<in>set xs. P d \<and> r = f d) \<or> (r \<in> set xs \<and> \<not> P r)"
  by (induction xs) (auto split: if_splits)

section \<open>The double arithmetic at known values\<close>

text \<open>
  The double nearest to 0.1 is \<open>3602879701896397 / 2\<^sup>5\<^sup>5\<close>; the quotient 23 / 40 rounds
  below 0.575, and its product with 100, rounded again, stays below 57.5.
\<close>

lemma to_double_tenth: "to_double (1 / 10) = 3602879701896397 / 36028797018963968"
  by code_simp

lemma to_double_23_40: "to_double (23 / 40) = 2589569785738035 / 4503599627370496"
  by code_simp

lemma to_double_23_40_times_100:
  "to_double (to_double (23 / 40) * 100) = 8092405580431359 / 140737488355328"
  by code_simp

lemma progressOf_1_3: "progressOf 1 3 = Num 33"
  by code_simp

section \<open>The concrete states\<close>

lemma three_day_plan_eq:
  "three_day_plan =
     \<lparr>learningPlans =
        [\<lparr>lp_id = 0, lp_userId = 7, track = FAANG, durationDays = 3,
          isActive = True, currentDay = 1, progress = Num 0\<rparr>],
      dailyPlans =
        [\<lparr>dp_id = 1, learningPlanId = 0, dayNumber = 1, isUnlocked = True,
          isCompleted = False, mockInterviewId = None\<rparr>,
         \<lparr>dp_id = 2, learningPlanId = 0, dayNumber = 2, isUnlocked = False,
          isCompleted = False, mockInterviewId = None\<rparr>,
         \<lparr>dp_id = 3, learningPlanId = 0, dayNumber = 3, isUnlocked = False,
          isCompleted = False, mockInterviewId = None\<rparr>],
      resources = [], userResources = [], quizzes = [], quizAttempts = [],
      mockInterviews = [], nextId = 4, users = [\<lparr>u_id = 7\<rparr>],
      clock = 1793577600000\<rparr>"
  by code_simp

lemma three_day_plan_day2:
  "dailyPlan_findUnique three_day_plan 2 =
     Some \<lparr>dp_id = 2, learningPlanId = 0, dayNumber = 2, isUnlocked = False,
           isCompleted = False, mockInterviewId = None\<rparr>"
  by (simp add: three_day_plan_eq dailyPlan_findUnique_def)

lemma three_day_plan_plan:
  "learningPlan_findUnique three_day_plan 0 =
     Some \<lparr>lp_id = 0, lp_userId = 7, track = FAANG, durationDays = 3,
           isActive = True, currentDay = 1, progress = Num 0\<rparr>"
  by (simp add: three_day_plan_eq learningPlan_findUnique_def)

lemma three_day_plan_day3:
  "dailyPlan_findFirst three_day_plan 0 3 =
     Some \<lparr>dp_id = 3, learningPlanId = 0, dayNumber = 3, isUnlocked = False,
           isCompleted = False, mockInterviewId = None\<rparr>"
  by (simp add: three_day_plan_eq dailyPlan_findFirst_def)

lemma quiz_pending_day1: "dailyPlan_findUnique quiz_pending 1 = Some day1"
  by (simp add: quiz_pending_def three_day_plan_eq dailyPlan_findUnique_def day1_def)

lemma quiz_pending_plan:
  "learningPlan_findUnique quiz_pending 0 =
     Some \<lparr>lp_id = 0, lp_userId = 7, track = FAANG, durationDays = 3,
           isActive = True, currentDay = 1, progress = Num 0\<rparr>"
  by (simp add: quiz_pending_def three_day_plan_eq learningPlan_findUnique_def)

lemma quiz_pending_quiz: "\<not> quizCompleted quiz_pending day1 7"
  by (simp add: quiz_pending_def quizCompleted_def quiz_def attempts_def three_day_plan_eq day1_def)

lemma two_days_done_eq:
  "two_days_done =
     \<lparr>learningPlans =
        [\<lparr>lp_id = 0, lp_userId = 7, track = FAANG, durationDays = 3,
          isActive = True, currentDay = 3, progress = Num 67\<rparr>],
      dailyPlans =
        [\<lparr>dp_id = 1, learningPlanId = 0, dayNumber = 1, isUnlocked = True,
          isCompleted = True, mockInterviewId = None\<rparr>,
         \<lparr>dp_id = 2, learningPlanId = 0, dayNumber = 2, isUnlocked = True,
          isCompleted = True, mockInterviewId = None\<rparr>,
         \<lparr>dp_id = 3, learningPlanId = 0, dayNumber = 3, isUnlocked = True,
          isCompleted = False, mockInterviewId = None\<rparr>],
      resources = [], userResources = [], quizzes = [], quizAttempts = [],
      mockInterviews = [], nextId = 4, users = [\<lparr>u_id = 7\<rparr>],
      clock = 1793577600000\<rparr>"
  by code_simp


lemmas flag_defs = allResourcesCompleted_def quizCompleted_def interviewCompleted_def
  learningResources_def practiceResources_def quiz_def attempts_def mockInterview_def

lemma forty_day_plan_eq:
  "forty_day_plan =
     \<lparr>learningPlans =
        [\<lparr>lp_id = 0, lp_userId = 7, track = FAANG, durationDays = 40,
          isActive = True, currentDay = 23, progress = Num 55\<rparr>],
      dailyPlans =
        map (\<lambda>n. \<lparr>dp_id = nat n, learningPlanId = 0, dayNumber = n, isUnlocked = (n \<le> 23),
                   isCompleted = (n \<le> 22), mockInterviewId = None\<rparr>) [1..40],
      resources = [], userResources = [], quizzes = [], quizAttempts = [],
      mockInterviews = [], nextId = 41, users = [\<lparr>u_id = 7\<rparr>],
      clock = 1793577600000\<rparr>"
  by code_simp

section \<open>Creating the days of a plan\<close>

text \<open>
  When the plan has no row from \<open>day\<close> on and the days to create are \<^verbatim>\<open>Int\<close> values, the loop
  succeeds and appends one row per day of \<open>day..lastDay\<close>, in order, each with a key not
  below the counter it started from.
\<close>

lemma createDays_appends:
  "\<forall>r\<in>set (dailyPlans tx). learningPlanId r = pid \<longrightarrow> dayNumber r < day \<Longrightarrow>
   day \<le> lastDay \<longrightarrow> Int_ok day \<and> Int_ok lastDay \<Longrightarrow>
   \<exists>new. createDays unl pid day lastDay tx =
           Some (tx\<lparr>dailyPlans := dailyPlans tx @ new, nextId := nextId tx + length new\<rparr>)
       \<and> map dayNumber new = [day..lastDay]
       \<and> (\<forall>r\<in>set new. learningPlanId r = pid \<and> isUnlocked r = unl (dayNumber r) \<and> \<not> isCompleted r
             \<and> nextId tx \<le> dp_id r)"
proof (induction unl pid day lastDay tx rule: createDays.induct)
  case (1 unl pid day lastDay tx)
  show ?case
  proof (cases "day \<le> lastDay")
    case False
    then show ?thesis by (subst createDays.simps) simp
  next
    case True
    let ?row = "\<lparr>dp_id = nextId tx, learningPlanId = pid, dayNumber = day,
                  isUnlocked = unl day, isCompleted = False, mockInterviewId = None\<rparr>"
    let ?tx' = "tx\<lparr>dailyPlans := dailyPlans tx @ [?row], nextId := Suc (nextId tx)\<rparr>"
    from "1.prems"(1) have "\<not> list_ex (\<lambda>d. learningPlanId d = pid \<and> dayNumber d = day) (dailyPlans tx)"
      by (auto simp: list_ex_iff)
    moreover from "1.prems"(2) True have ok: "Int_ok day" "Int_ok lastDay"
      by simp_all
    ultimately have cr: "dailyPlan_create tx pid day (unl day) False = Some ?tx'"
      by (simp add: dailyPlan_create_def)
    have rows': "\<forall>r\<in>set (dailyPlans ?tx'). learningPlanId r = pid \<longrightarrow> dayNumber r < day + 1"
      using "1.prems"(1) by auto
    have range': "day + 1 \<le> lastDay \<longrightarrow> Int_ok (day + 1) \<and> Int_ok lastDay"
      using ok by (auto simp: Int_ok_def)
    from "1.IH"[OF True cr rows' range'] obtain new where
      new: "createDays unl pid (day + 1) lastDay ?tx' =
              Some (?tx'\<lparr>dailyPlans := dailyPlans ?tx' @ new, nextId := nextId ?tx' + length new\<rparr>)"
        "map dayNumber new = [day + 1..lastDay]"
        "\<forall>r\<in>set new. learningPlanId r = pid \<and> isUnlocked r = unl (dayNumber r) \<and> \<not> isCompleted r
             \<and> nextId ?tx' \<le> dp_id r"
      by blast
    have "createDays unl pid day lastDay tx =
            Some (tx\<lparr>dailyPlans := dailyPlans tx @ (?row # new), nextId := nextId tx + length (?row # new)\<rparr>)"
      using True cr new(1) by (subst createDays.simps) simp
    moreover have "map dayNumber (?row # new) = [day..lastDay]"
      using True new(2) by (simp add: upto_rec1)
    moreover have "\<forall>r\<in>set (?row # new). learningPlanId r = pid \<and> isUnlocked r = unl (dayNumber r)
        \<and> \<not> isCompleted r \<and> nextId tx \<le> dp_id r"
      using new(3) by auto
    ultimately show ?thesis by blast
  qed
qed

text \<open>
  Claim C1. For every \<open>durationDays \<ge> 1\<close> that is an \<^verbatim>\<open>Int\<close> and gives a valid end date, for
  a requester who is a user, on a state whose key counter is fresh, \<^verbatim>\<open>createLearningPlan\<close>
  succeeds; the rows it adds to the table of daily plans are exactly the days returned,
  these are all the rows of the new plan, there are \<open>durationDays\<close> of them, their day
  numbers are \<open>1, 2, \<dots>, durationDays\<close> in this order, a row is unlocked exactly when its
  day number is 1, and no row is completed.
\<close>

theorem createLearningPlan_creates_days:
  assumes d: "1 \<le> d" and fresh: "keys_fresh db"
    and user: "list_ex (\<lambda>u. u_id u = userId) (users db)"
    and int: "Int_ok d"
    and date: "Date_ok (of_int (clock db + d * 86400000))"
  shows "\<exists>lp days db'. createLearningPlan db userId trk d = (Inr (lp, days), db')
      \<and> dailyPlans db' = dailyPlans db @ days
      \<and> filter (\<lambda>r. learningPlanId r = lp_id lp) (dailyPlans db') = days
      \<and> int (length days) = d
      \<and> map dayNumber days = [1..d]
      \<and> (\<forall>r\<in>set days. isUnlocked r = (dayNumber r = 1) \<and> \<not> isCompleted r)"
proof -
  let ?p = "\<lparr>lp_id = nextId db, lp_userId = userId, track = trk, durationDays = d,
              isActive = True, currentDay = 1, progress = Num 0\<rparr>"
  let ?tx = "db\<lparr>learningPlans := learningPlans db @ [?p], nextId := Suc (nextId db)\<rparr>"
  have cr: "learningPlan_create db userId trk d (of_int (clock db + d * 86400000)) = Some (?p, ?tx)"
    using user int date by (simp add: learningPlan_create_def Let_def)
  have none: "\<forall>r\<in>set (dailyPlans db). learningPlanId r \<noteq> nextId db"
    using fresh by (auto simp: keys_fresh_def list_all_iff)
  then have rows: "\<forall>r\<in>set (dailyPlans ?tx). learningPlanId r = nextId db \<longrightarrow> dayNumber r < 1"
    by simp
  have range: "1 \<le> d \<longrightarrow> Int_ok 1 \<and> Int_ok d"
    using int by (simp add: Int_ok_def)
  from createDays_appends[OF rows range, of "\<lambda>day. day = 1"] obtain new where
    new: "createDays (\<lambda>day. day = 1) (nextId db) 1 d ?tx =
            Some (?tx\<lparr>dailyPlans := dailyPlans ?tx @ new, nextId := nextId ?tx + length new\<rparr>)"
      "map dayNumber new = [1..d]"
      "\<forall>r\<in>set new. learningPlanId r = nextId db \<and> isUnlocked r = (dayNumber r = 1) \<and> \<not> isCompleted r
             \<and> nextId ?tx \<le> dp_id r"
    by blast
  let ?tx' = "?tx\<lparr>dailyPlans := dailyPlans ?tx @ new, nextId := nextId ?tx + length new\<rparr>"
  have "find (\<lambda>p. lp_id p = nextId db) (learningPlans db) = None"
    using fresh by (auto simp: keys_fresh_def find_None_iff list_all_iff)
  then have fu: "learningPlan_findUnique ?tx' (nextId db) = Some ?p"
    by (simp add: learningPlan_findUnique_def find_append_None)
  have srt: "sorted (map dayNumber new)"
    by (simp add: new(2))
  have flt: "filter (\<lambda>r. learningPlanId r = nextId db) (dailyPlans ?tx') = new"
    using none new(3) by (simp add: filter_none filter_all)
  then have inc: "include_dailyPlans ?tx' (nextId db) = new"
    using srt by (simp add: include_dailyPlans_def sort_key_id_if_sorted)
  have res: "createLearningPlan db userId trk d = (Inr (?p, new), ?tx')"
    using new(1) fu inc cr
    by (simp add: createLearningPlan_def Let_def)
  have len: "int (length new) = d"
  proof -
    have "length new = length (map dayNumber new)" by simp
    also have "\<dots> = length [1..d]" by (simp only: new(2))
    finally show ?thesis using d by simp
  qed
  show ?thesis
    using res flt len new(2,3) by (intro exI[of _ ?p] exI[of _ new] exI[of _ ?tx']) simp
qed

theorem createLearningPlan_creates_days_witness:
  "(1::int) \<le> 3 \<and> keys_fresh one_user \<and> list_ex (\<lambda>u. u_id u = 7) (users one_user)
   \<and> Int_ok 3 \<and> Date_ok (of_int (clock one_user + 3 * 86400000))
   \<and> (\<exists>lp days db'. createLearningPlan one_user 7 FAANG 3 = (Inr (lp, days), db')
      \<and> dailyPlans db' = dailyPlans one_user @ days
      \<and> filter (\<lambda>r. learningPlanId r = lp_id lp) (dailyPlans db') = days
      \<and> int (length days) = 3
      \<and> map dayNumber days = [1..3]
      \<and> (\<forall>r\<in>set days. isUnlocked r = (dayNumber r = 1) \<and> \<not> isCompleted r))"
proof -
  have f: "keys_fresh one_user"
    by (simp add: keys_fresh_def one_user_def)
  have u: "list_ex (\<lambda>u. u_id u = 7) (users one_user)"
    by (simp add: one_user_def)
  have i: "Int_ok 3"
    by (simp add: Int_ok_def)
  have t: "Date_ok (of_int (clock one_user + 3 * 86400000))"
    by (simp add: Date_ok_def one_user_def)
  show ?thesis
    using f u i t createLearningPlan_creates_days [OF _ f u i t, of FAANG] by simp
qed

text \<open>
  Outside these conditions the creation fails and writes nothing: for a requester who is
  no user, for a duration that is no \<^verbatim>\<open>Int\<close>, and for an end date beyond the range of
  \<^verbatim>\<open>Date\<close>.
\<close>

lemma createLearningPlan_rejected:
  assumes "\<not> list_ex (\<lambda>u. u_id u = userId) (users db) \<or> \<not> Int_ok d
           \<or> \<not> Date_ok (of_int (clock db + d * 86400000))"
  shows "createLearningPlan db userId trk d =
           (Inl (ApiError 500 ''Error creating learning plan''), db)"
  using assms by (auto simp: createLearningPlan_def learningPlan_create_def Let_def)

section \<open>Unlocking a day\<close>

text \<open>
  Claim C5. For a day with number \<open>N > 1\<close> whose plan belongs to the requester, when the
  row of day \<open>N - 1\<close> of the same plan is not completed, \<^verbatim>\<open>unlockDailyPlan\<close> fails with
  the error of status 400 "Cannot unlock this day until the previous day is completed",
  and the state it leaves is the state it was given: no row changes.
\<close>

theorem unlockDailyPlan_previous_day_open:
  assumes "dailyPlan_findUnique db i = Some dailyPlan"
    and "learningPlan_findUnique db (learningPlanId dailyPlan) = Some learningPlan"
    and "lp_userId learningPlan = userId"
    and "1 < dayNumber dailyPlan"
    and "dailyPlan_findFirst db (learningPlanId dailyPlan) (dayNumber dailyPlan - 1) =
           Some previousDay"
    and "\<not> isCompleted previousDay"
  shows "unlockDailyPlan db i userId =
           (Inl (ApiError 400 ''Cannot unlock this day until the previous day is completed''), db)"
  using assms by (simp add: unlockDailyPlan_def)

theorem unlockDailyPlan_previous_day_open_witness:
  "dailyPlan_findUnique three_day_plan 2 =
     Some \<lparr>dp_id = 2, learningPlanId = 0, dayNumber = 2, isUnlocked = False,
           isCompleted = False, mockInterviewId = None\<rparr>
   \<and> learningPlan_findUnique three_day_plan 0 =
     Some \<lparr>lp_id = 0, lp_userId = 7, track = FAANG, durationDays = 3,
           isActive = True, currentDay = 1, progress = Num 0\<rparr>
   \<and> dailyPlan_findFirst three_day_plan 0 1 = Some day1
   \<and> \<not> isCompleted day1
   \<and> unlockDailyPlan three_day_plan 2 7 =
       (Inl (ApiError 400 ''Cannot unlock this day until the previous day is completed''),
        three_day_plan)"
proof -
  have prev: "dailyPlan_findFirst three_day_plan 0 1 = Some day1"
    by (simp add: three_day_plan_eq dailyPlan_findFirst_def day1_def)
  have "\<not> isCompleted day1"
    by (simp add: day1_def)
  then show ?thesis
    using three_day_plan_day2 three_day_plan_plan prev
      unlockDailyPlan_previous_day_open [OF three_day_plan_day2, of _ 7 day1]
    by simp
qed

text \<open>With the previous day completed the same call unlocks the day.\<close>

lemma unlockDailyPlan_previous_day_completed:
  assumes "dailyPlan_findUnique db i = Some dailyPlan"
    and "learningPlan_findUnique db (learningPlanId dailyPlan) = Some learningPlan"
    and "lp_userId learningPlan = userId"
    and "dailyPlan_findFirst db (learningPlanId dailyPlan) (dayNumber dailyPlan - 1) =
           Some previousDay"
    and "isCompleted previousDay"
  shows "\<exists>db'. unlockDailyPlan db i userId = (Inr (dailyPlan\<lparr>isUnlocked := True\<rparr>), db')"
  using assms
  by (simp add: unlockDailyPlan_def dailyPlan_update_def dailyPlan_findUnique_def)

section \<open>The gates of completing a day\<close>

text \<open>
  Claim C6. For a day whose plan belongs to the requester, if the day is locked then
  \<^verbatim>\<open>completeDailyPlan\<close> fails with the error of status 400 "Cannot complete a locked daily
  plan", whatever the state of its resources, quiz and mock interview, and the state it
  leaves is the state it was given.
\<close>

theorem completeDailyPlan_locked:
  assumes "dailyPlan_findUnique db i = Some dailyPlan"
    and "learningPlan_findUnique db (learningPlanId dailyPlan) = Some learningPlan"
    and "lp_userId learningPlan = userId"
    and "\<not> isUnlocked dailyPlan"
  shows "completeDailyPlan db i userId =
           (Inl (ApiError 400 ''Cannot complete a locked daily plan''), db)"
  using assms by (simp add: completeDailyPlan_def)

theorem completeDailyPlan_locked_witness:
  "dailyPlan_findUnique three_day_plan 2 =
     Some \<lparr>dp_id = 2, learningPlanId = 0, dayNumber = 2, isUnlocked = False,
           isCompleted = False, mockInterviewId = None\<rparr>
   \<and> learningPlan_findUnique three_day_plan 0 =
     Some \<lparr>lp_id = 0, lp_userId = 7, track = FAANG, durationDays = 3,
           isActive = True, currentDay = 1, progress = Num 0\<rparr>
   \<and> completeDailyPlan three_day_plan 2 7 =
       (Inl (ApiError 400 ''Cannot complete a locked daily plan''), three_day_plan)"
  using three_day_plan_day2 three_day_plan_plan
    completeDailyPlan_locked [OF three_day_plan_day2, of _ 7]
  by simp

text \<open>
  Claim C7, as stated: on an input where exactly one gate fails, the error tells which.
  It does not: with only the quiz gate failing (state \<open>quiz_pending\<close>) and with only the
  interview gate failing (state \<open>interview_pending\<close>) the error is the same.
\<close>

theorem completeDailyPlan_gate_counterexample:
  "dailyPlan_findUnique quiz_pending 1 = Some day1
   \<and> isUnlocked day1
   \<and> allResourcesCompleted quiz_pending day1 7
   \<and> \<not> quizCompleted quiz_pending day1 7
   \<and> interviewCompleted quiz_pending day1 7
   \<and> dailyPlan_findUnique interview_pending 1 = Some (day1\<lparr>mockInterviewId := Some 20\<rparr>)
   \<and> allResourcesCompleted interview_pending (day1\<lparr>mockInterviewId := Some 20\<rparr>) 7
   \<and> quizCompleted interview_pending (day1\<lparr>mockInterviewId := Some 20\<rparr>) 7
   \<and> \<not> interviewCompleted interview_pending (day1\<lparr>mockInterviewId := Some 20\<rparr>) 7
   \<and> fst (completeDailyPlan quiz_pending 1 7) = fst (completeDailyPlan interview_pending 1 7)"
  by code_simp

text \<open>
  Claim C7, amended. For a day whose plan belongs to the requester: the lock state is
  checked first, and a locked day gives the error of status 400 "Cannot complete a locked
  daily plan"; on an unlocked day the resources, quiz and interview checks are one test,
  and the failure of any of them gives the one error of status 400 "All resources,
  quizzes, and interviews must be completed", which does not tell the gates apart. In
  both cases the state is left as it was.
\<close>

theorem completeDailyPlan_gate_errors:
  assumes "dailyPlan_findUnique db i = Some dailyPlan"
    and "learningPlan_findUnique db (learningPlanId dailyPlan) = Some learningPlan"
    and "lp_userId learningPlan = userId"
  shows "(\<not> isUnlocked dailyPlan \<longrightarrow>
            completeDailyPlan db i userId =
              (Inl (ApiError 400 ''Cannot complete a locked daily plan''), db))
       \<and> (isUnlocked dailyPlan \<and>
            (\<not> allResourcesCompleted db dailyPlan userId \<or>
             \<not> quizCompleted db dailyPlan userId \<or>
             \<not> interviewCompleted db dailyPlan userId) \<longrightarrow>
            completeDailyPlan db i userId =
              (Inl (ApiError 400 ''All resources, quizzes, and interviews must be completed''), db))"
  using assms by (simp add: completeDailyPlan_def)

theorem completeDailyPlan_gate_errors_witness:
  "dailyPlan_findUnique quiz_pending 1 = Some day1
   \<and> learningPlan_findUnique quiz_pending 0 =
     Some \<lparr>lp_id = 0, lp_userId = 7, track = FAANG, durationDays = 3,
           isActive = True, currentDay = 1, progress = Num 0\<rparr>
   \<and> isUnlocked day1 \<and> \<not> quizCompleted quiz_pending day1 7
   \<and> completeDailyPlan quiz_pending 1 7 =
       (Inl (ApiError 400 ''All resources, quizzes, and interviews must be completed''),
        quiz_pending)
   \<and> dailyPlan_findUnique three_day_plan 2 =
     Some \<lparr>dp_id = 2, learningPlanId = 0, dayNumber = 2, isUnlocked = False,
           isCompleted = False, mockInterviewId = None\<rparr>
   \<and> completeDailyPlan three_day_plan 2 7 =
       (Inl (ApiError 400 ''Cannot complete a locked daily plan''), three_day_plan)"
proof -
  have u: "isUnlocked day1"
    by (simp add: day1_def)
  have p: "learningPlan_findUnique quiz_pending (learningPlanId day1) =
     Some \<lparr>lp_id = 0, lp_userId = 7, track = FAANG, durationDays = 3,
           isActive = True, currentDay = 1, progress = Num 0\<rparr>"
    by (simp add: day1_def quiz_pending_plan)
  show ?thesis
    using u quiz_pending_quiz quiz_pending_day1 quiz_pending_plan
      three_day_plan_day2 three_day_plan_plan
      completeDailyPlan_gate_errors [OF quiz_pending_day1 p, of 7]
      completeDailyPlan_gate_errors [OF three_day_plan_day2, of _ 7]
    by simp
qed

section \<open>Progress updates\<close>

text \<open>
  Claim C9. When the owner of a plan calls \<^verbatim>\<open>updateLearningPlanProgress\<close> with a
  \<^verbatim>\<open>currentDay\<close> \<open>n\<close> in \<open>[1, durationDays]\<close> above the stored one, then in the state the call
  leaves the row of day \<open>n\<close> of the plan is unlocked (and otherwise as it was). Nothing is
  asked of day \<open>n - 1\<close>. The call returns the plan when the data can be written, and the
  error of status 500 when it cannot (a progress that is not finite); the day is unlocked
  in both cases.
\<close>

theorem updateLearningPlanProgress_unlocks:
  assumes plan: "learningPlan_findUnique db i = Some existingPlan"
    and owner: "lp_userId existingPlan = userId"
    and cd: "pd_currentDay progressData = Some n"
    and range: "1 \<le> n" "n \<le> durationDays existingPlan"
    and incr: "currentDay existingPlan < n"
    and row: "dailyPlan_findFirst db i n = Some day"
  shows "dailyPlan_findFirst (snd (updateLearningPlanProgress db i userId progressData)) i n =
           Some (day\<lparr>isUnlocked := True\<rparr>)
       \<and> (\<forall>r\<in>set (dailyPlans (snd (updateLearningPlanProgress db i userId progressData))).
             learningPlanId r = i \<and> dayNumber r = n \<longrightarrow> isUnlocked r)
       \<and> (valid_progressData progressData \<longrightarrow>
             (\<exists>p days. fst (updateLearningPlanProgress db i userId progressData) = Inr (p, days)))
       \<and> (\<not> valid_progressData progressData \<longrightarrow>
             fst (updateLearningPlanProgress db i userId progressData) =
               Inl (ApiError 500 ''Error updating learning plan progress''))"
proof -
  let ?g = "\<lambda>d. if learningPlanId d = i \<and> dayNumber d = n then d\<lparr>isUnlocked := True\<rparr> else d"
  define db1 where "db1 = unlockDailyPlan_ofDay db i n"
  have dp1: "dailyPlans db1 = map ?g (dailyPlans db)"
    by (simp add: db1_def unlockDailyPlan_ofDay_def dailyPlan_updateMany_def)
  have lp1: "learningPlans db1 = learningPlans db"
    by (simp add: db1_def unlockDailyPlan_ofDay_def dailyPlan_updateMany_def)
  define db2 where "db2 = db1\<lparr>learningPlans :=
       map (\<lambda>p. if lp_id p = i then write_progressData progressData p else p) (learningPlans db1)\<rparr>"
  from plan have "find (\<lambda>p. lp_id p = i) (learningPlans db1) = Some existingPlan"
    by (simp add: lp1 learningPlan_findUnique_def)
  then have
    upd: "learningPlan_update db1 i (write_progressData progressData) =
            Some (write_progressData progressData existingPlan, db2)"
    by (simp add: learningPlan_update_def db2_def)
  have dp2: "dailyPlans db2 = dailyPlans db1"
    by (simp add: db2_def)
  have res: "updateLearningPlanProgress db i userId progressData =
               (if valid_progressData progressData
                then (Inr (write_progressData progressData existingPlan, include_dailyPlans db2 i), db2)
                else (Inl (ApiError 500 ''Error updating learning plan progress''), db1))"
    using range incr
    by (simp add: updateLearningPlanProgress_def plan owner cd db1_def[symmetric] upd Let_def)
  then have days: "dailyPlans (snd (updateLearningPlanProgress db i userId progressData)) =
      map ?g (dailyPlans db)"
    by (simp add: dp2 dp1)
  have "find (\<lambda>d. learningPlanId d = i \<and> dayNumber d = n) (map ?g (dailyPlans db)) =
          map_option ?g (find (\<lambda>d. learningPlanId d = i \<and> dayNumber d = n) (dailyPlans db))"
    by (rule find_map_preserved) simp
  moreover from row have "learningPlanId day = i \<and> dayNumber day = n"
    unfolding dailyPlan_findFirst_def by (rule find_Some_holds[THEN conjunct1])
  ultimately have ff:
    "dailyPlan_findFirst (snd (updateLearningPlanProgress db i userId progressData)) i n =
       Some (day\<lparr>isUnlocked := True\<rparr>)"
    using row by (simp add: dailyPlan_findFirst_def days)
  have all: "\<forall>r\<in>set (dailyPlans (snd (updateLearningPlanProgress db i userId progressData))).
      learningPlanId r = i \<and> dayNumber r = n \<longrightarrow> isUnlocked r"
  proof
    fix r
    assume "r \<in> set (dailyPlans (snd (updateLearningPlanProgress db i userId progressData)))"
    then have "r \<in> set (map ?g (dailyPlans db))"
      by (simp only: days)
    then have "(\<exists>d\<in>set (dailyPlans db). (learningPlanId d = i \<and> dayNumber d = n) \<and> r = d\<lparr>isUnlocked := True\<rparr>)
        \<or> (r \<in> set (dailyPlans db) \<and> \<not> (learningPlanId r = i \<and> dayNumber r = n))"
      by (rule set_map_if_cases)
    then show "learningPlanId r = i \<and> dayNumber r = n \<longrightarrow> isUnlocked r"
      by (elim disjE bexE conjE) (simp, blast)
  qed
  have ok: "valid_progressData progressData \<longrightarrow>
      (\<exists>p days. fst (updateLearningPlanProgress db i userId progressData) = Inr (p, days))"
    by (simp add: res)
  have bad: "\<not> valid_progressData progressData \<longrightarrow>
      fst (updateLearningPlanProgress db i userId progressData) =
        Inl (ApiError 500 ''Error updating learning plan progress'')"
    by (simp add: res)
  from ff all ok bad show ?thesis
    by (intro conjI)
qed

theorem updateLearningPlanProgress_unlocks_witness:
  "learningPlan_findUnique three_day_plan 0 =
     Some \<lparr>lp_id = 0, lp_userId = 7, track = FAANG, durationDays = 3,
           isActive = True, currentDay = 1, progress = Num 0\<rparr>
   \<and> dailyPlan_findUnique three_day_plan 2 =
     Some \<lparr>dp_id = 2, learningPlanId = 0, dayNumber = 2, isUnlocked = False,
           isCompleted = False, mockInterviewId = None\<rparr>
   \<and> dailyPlan_findFirst three_day_plan 0 3 =
     Some \<lparr>dp_id = 3, learningPlanId = 0, dayNumber = 3, isUnlocked = False,
           isCompleted = False, mockInterviewId = None\<rparr>
   \<and> valid_progressData \<lparr>pd_currentDay = Some 3, pd_progress = None\<rparr>
   \<and> dailyPlan_findFirst
        (snd (updateLearningPlanProgress three_day_plan 0 7
                \<lparr>pd_currentDay = Some 3, pd_progress = None\<rparr>)) 0 3 =
       Some \<lparr>dp_id = 3, learningPlanId = 0, dayNumber = 3, isUnlocked = True,
             isCompleted = False, mockInterviewId = None\<rparr>
   \<and> (\<exists>p days. fst (updateLearningPlanProgress three_day_plan 0 7
                       \<lparr>pd_currentDay = Some 3, pd_progress = None\<rparr>) = Inr (p, days))
   \<and> \<not> valid_progressData \<lparr>pd_currentDay = Some 3, pd_progress = Some NaN\<rparr>
   \<and> dailyPlan_findFirst
        (snd (updateLearningPlanProgress three_day_plan 0 7
                \<lparr>pd_currentDay = Some 3, pd_progress = Some NaN\<rparr>)) 0 3 =
       Some \<lparr>dp_id = 3, learningPlanId = 0, dayNumber = 3, isUnlocked = True,
             isCompleted = False, mockInterviewId = None\<rparr>
   \<and> fst (updateLearningPlanProgress three_day_plan 0 7
            \<lparr>pd_currentDay = Some 3, pd_progress = Some NaN\<rparr>) =
       Inl (ApiError 500 ''Error updating learning plan progress'')"
proof -
  have v: "valid_progressData \<lparr>pd_currentDay = Some 3, pd_progress = None\<rparr>"
    by (simp add: valid_progressData_def Int_ok_def)
  have nv: "\<not> valid_progressData \<lparr>pd_currentDay = Some 3, pd_progress = Some NaN\<rparr>"
    by (simp add: valid_progressData_def Float_ok_def)
  show ?thesis
    using v nv three_day_plan_plan three_day_plan_day2 three_day_plan_day3
      updateLearningPlanProgress_unlocks [OF three_day_plan_plan _ _ _ _ _ three_day_plan_day3,
        of 7 "\<lparr>pd_currentDay = Some 3, pd_progress = None\<rparr>"]
      updateLearningPlanProgress_unlocks [OF three_day_plan_plan _ _ _ _ _ three_day_plan_day3,
        of 7 "\<lparr>pd_currentDay = Some 3, pd_progress = Some NaN\<rparr>"]
    by simp
qed

section \<open>Changing the duration\<close>

lemma learningPlan_update_found:
  assumes "learningPlan_findUnique db pid = Some p" and "\<And>q. lp_id (f q) = lp_id q"
  shows "\<exists>tx. learningPlan_update db pid f = Some (f p, tx)
           \<and> dailyPlans tx = dailyPlans db
           \<and> learningPlan_findUnique tx pid = Some (f p)
           \<and> tx = db\<lparr>learningPlans := map (\<lambda>q. if lp_id q = pid then f q else q) (learningPlans db)\<rparr>"
proof -
  let ?g = "\<lambda>q. if lp_id q = pid then f q else q"
  let ?tx = "db\<lparr>learningPlans := map ?g (learningPlans db)\<rparr>"
  from assms(1) have fnd: "find (\<lambda>q. lp_id q = pid) (learningPlans db) = Some p"
    by (simp add: learningPlan_findUnique_def)
  then have "lp_id p = pid"
    by (rule find_Some_holds[THEN conjunct1])
  have "find (\<lambda>q. lp_id q = pid) (map ?g (learningPlans db)) =
          map_option ?g (find (\<lambda>q. lp_id q = pid) (learningPlans db))"
    by (rule find_map_preserved) (simp add: assms(2))
  with fnd \<open>lp_id p = pid\<close> have "learningPlan_findUnique ?tx pid = Some (f p)"
    by (simp add: learningPlan_findUnique_def)
  moreover from fnd have "learningPlan_update db pid f = Some (f p, ?tx)"
    by (simp add: learningPlan_update_def)
  ultimately show ?thesis by simp
qed

lemma lp_id_write_updateData: "lp_id (write_updateData u q) = lp_id q"
  by (simp add: write_updateData_def)

text \<open>
  Claim C8. For a plan that exists, none of whose rows has a day number above the old
  duration \<open>D1\<close>, when the durations are \<^verbatim>\<open>Int\<close> values, \<^verbatim>\<open>updateData\<close> can be written and the
  new end date is valid, \<^verbatim>\<open>handleDurationChange\<close> to \<open>D2\<close> succeeds. If \<open>D2 > D1\<close>, the table of
  daily plans is the old one followed by new rows of this plan, one for each day of
  \<open>D1 + 1, \<dots>, D2\<close> in order, all locked and not completed. If \<open>D2 < D1\<close>, the table is
  the old one without the rows of this plan whose day number exceeds \<open>D2\<close>. In both cases
  every row of the plan with a day number up to \<open>min D1 D2\<close> is still there, unchanged.
\<close>

theorem handleDurationChange_days:
  assumes plan: "learningPlan_findUnique db pid = Some p"
    and rows: "\<forall>r\<in>set (dailyPlans db). learningPlanId r = pid \<longrightarrow> dayNumber r \<le> D1"
    and ints: "Int_ok D1" "Int_ok D2"
    and valid: "valid_updateData updateData"
    and date: "Date_ok (endDate_of db D2)"
  shows "\<exists>lp days db'. handleDurationChange db pid D1 D2 updateData = (Inr (lp, days), db')
      \<and> (D1 < D2 \<longrightarrow>
           (\<exists>new. dailyPlans db' = dailyPlans db @ new
              \<and> map dayNumber new = [D1 + 1..D2]
              \<and> (\<forall>r\<in>set new. learningPlanId r = pid \<and> \<not> isUnlocked r \<and> \<not> isCompleted r)))
      \<and> (D2 < D1 \<longrightarrow>
           dailyPlans db' =
             filter (\<lambda>r. \<not> (learningPlanId r = pid \<and> D2 < dayNumber r)) (dailyPlans db))
      \<and> (\<forall>r\<in>set (dailyPlans db).
            learningPlanId r = pid \<and> dayNumber r \<le> min D1 D2 \<longrightarrow> r \<in> set (dailyPlans db'))"
proof -
  let ?f = "write_updateData updateData"
  from learningPlan_update_found[OF plan, of ?f] obtain tx where
    upd: "learningPlan_update db pid ?f = Some (?f p, tx)"
    and dtx: "dailyPlans tx = dailyPlans db"
    and ptx: "learningPlan_findUnique tx pid = Some (?f p)"
    and tx: "tx = db\<lparr>learningPlans := map (\<lambda>q. if lp_id q = pid then ?f q else q) (learningPlans db)\<rparr>"
    using lp_id_write_updateData by blast
  consider (grow) "D1 < D2" | (shrink) "D2 < D1" | (same) "D1 = D2"
    by linarith
  then show ?thesis
  proof cases
    case grow
    have rows': "\<forall>r\<in>set (dailyPlans tx). learningPlanId r = pid \<longrightarrow> dayNumber r < D1 + 1"
      using rows by (auto simp: dtx)
    have range': "D1 + 1 \<le> D2 \<longrightarrow> Int_ok (D1 + 1) \<and> Int_ok D2"
      using ints by (auto simp: Int_ok_def)
    from createDays_appends[OF rows' range', of "\<lambda>day. False"] obtain new where
      new: "createDays (\<lambda>day. False) pid (D1 + 1) D2 tx =
              Some (tx\<lparr>dailyPlans := dailyPlans tx @ new, nextId := nextId tx + length new\<rparr>)"
        "map dayNumber new = [D1 + 1..D2]"
        "\<forall>r\<in>set new. learningPlanId r = pid \<and> \<not> isUnlocked r \<and> \<not> isCompleted r"
      by auto
    define tx' where "tx' = tx\<lparr>dailyPlans := dailyPlans tx @ new, nextId := nextId tx + length new\<rparr>"
    have p': "learningPlan_findUnique tx' pid = Some (?f p)"
      using ptx by (simp add: tx'_def learningPlan_findUnique_def)
    have d': "dailyPlans tx' = dailyPlans db @ new"
      by (simp add: tx'_def dtx)
    have "handleDurationChange db pid D1 D2 updateData = (Inr (?f p, include_dailyPlans tx' pid), tx')"
      using grow new(1) p' by (simp add: handleDurationChange_def valid date upd tx'_def[symmetric])
    then show ?thesis
      using grow d' new(2,3) by auto
  next
    case shrink
    define tx' where
      "tx' = dailyPlan_deleteMany tx (\<lambda>d. learningPlanId d = pid \<and> dayNumber d > D2)"
    have p': "learningPlan_findUnique tx' pid = Some (?f p)"
      using ptx by (simp add: tx'_def learningPlan_findUnique_def dailyPlan_deleteMany_def Let_def)
    have d': "dailyPlans tx' =
        filter (\<lambda>r. \<not> (learningPlanId r = pid \<and> D2 < dayNumber r)) (dailyPlans db)"
      by (simp add: tx'_def dailyPlan_deleteMany_def Let_def dtx)
    have "handleDurationChange db pid D1 D2 updateData = (Inr (?f p, include_dailyPlans tx' pid), tx')"
      using shrink p' by (simp add: handleDurationChange_def valid date upd tx'_def[symmetric])
    then show ?thesis
      using shrink d' by auto
  next
    case same
    have "handleDurationChange db pid D1 D2 updateData = (Inr (?f p, include_dailyPlans tx pid), tx)"
      using same ptx by (simp add: handleDurationChange_def valid date upd)
    then show ?thesis
      using same dtx by auto
  qed
qed

theorem handleDurationChange_days_witness:
  "learningPlan_findUnique three_day_plan 0 =
     Some \<lparr>lp_id = 0, lp_userId = 7, track = FAANG, durationDays = 3,
           isActive = True, currentDay = 1, progress = Num 0\<rparr>
   \<and> map (\<lambda>r. (learningPlanId r, dayNumber r)) (dailyPlans three_day_plan) = [(0, 1), (0, 2), (0, 3)]
   \<and> Date_ok (endDate_of three_day_plan 5) \<and> Date_ok (endDate_of three_day_plan 1)
   \<and> (\<exists>lp days db'.
        handleDurationChange three_day_plan 0 3 5
          \<lparr>ud_track = None, ud_durationDays = Some 5, ud_isActive = None\<rparr> = (Inr (lp, days), db')
        \<and> (\<exists>new. dailyPlans db' = dailyPlans three_day_plan @ new
              \<and> map dayNumber new = [4, 5]
              \<and> (\<forall>r\<in>set new. learningPlanId r = 0 \<and> \<not> isUnlocked r \<and> \<not> isCompleted r)))
   \<and> (\<exists>lp days db'.
        handleDurationChange three_day_plan 0 3 1
          \<lparr>ud_track = None, ud_durationDays = Some 1, ud_isActive = None\<rparr> = (Inr (lp, days), db')
        \<and> dailyPlans db' = [day1])"
proof -
  have rows: "\<forall>r\<in>set (dailyPlans three_day_plan). learningPlanId r = 0 \<longrightarrow> dayNumber r \<le> 3"
    by (simp add: three_day_plan_eq)
  have flt: "filter (\<lambda>r. \<not> (learningPlanId r = 0 \<and> 1 < dayNumber r)) (dailyPlans three_day_plan) = [day1]"
    by (simp add: three_day_plan_eq day1_def)
  have up: "[3 + 1..5] = [4, 5::int]"
    by (simp add: upto_rec1)
  have ints: "Int_ok 3" "Int_ok 5" "Int_ok 1"
    by (simp_all add: Int_ok_def)
  have v5: "valid_updateData \<lparr>ud_track = None, ud_durationDays = Some 5, ud_isActive = None\<rparr>"
    and v1: "valid_updateData \<lparr>ud_track = None, ud_durationDays = Some 1, ud_isActive = None\<rparr>"
    by (simp_all add: valid_updateData_def Int_ok_def)
  have d5: "Date_ok (endDate_of three_day_plan 5)"
    by code_simp
  have d1: "Date_ok (endDate_of three_day_plan 1)"
    by code_simp
  from handleDurationChange_days [OF three_day_plan_plan rows ints(1) ints(2) v5 d5]
  have grow: "\<exists>lp days db'.
        handleDurationChange three_day_plan 0 3 5
          \<lparr>ud_track = None, ud_durationDays = Some 5, ud_isActive = None\<rparr> = (Inr (lp, days), db')
        \<and> (\<exists>new. dailyPlans db' = dailyPlans three_day_plan @ new
              \<and> map dayNumber new = [4, 5]
              \<and> (\<forall>r\<in>set new. learningPlanId r = 0 \<and> \<not> isUnlocked r \<and> \<not> isCompleted r))"
    by (simp only: up) (simp, elim exE conjE, intro exI conjI, assumption+)
  from handleDurationChange_days [OF three_day_plan_plan rows ints(1) ints(3) v1 d1]
  have shrink: "\<exists>lp days db'.
        handleDurationChange three_day_plan 0 3 1
          \<lparr>ud_track = None, ud_durationDays = Some 1, ud_isActive = None\<rparr> = (Inr (lp, days), db')
        \<and> dailyPlans db' = [day1]"
    by (simp only: flt) (simp, elim exE conjE, intro exI conjI, assumption+)
  have keys: "map (\<lambda>r. (learningPlanId r, dayNumber r)) (dailyPlans three_day_plan) =
      [(0, 1), (0, 2), (0, 3)]"
    by (simp add: three_day_plan_eq)
  from three_day_plan_plan keys d5 d1 grow shrink show ?thesis
    by (intro conjI)
qed

text \<open>
  When \<^verbatim>\<open>updateData\<close> cannot be written or the new end date is not valid, the update at the
  start throws: the transaction fails and writes nothing.
\<close>

lemma handleDurationChange_rejected:
  assumes "\<not> valid_updateData updateData \<or> \<not> Date_ok (endDate_of db D2)"
  shows "handleDurationChange db pid D1 D2 updateData =
           (Inl (ApiError 500 ''Error updating learning plan duration''), db)"
  using assms by (auto simp: handleDurationChange_def)

section \<open>Completing a day\<close>

text \<open>The progress computed is finite unless the duration is 0.\<close>

lemma Float_ok_progressOf: "d \<noteq> 0 \<Longrightarrow> Float_ok (progressOf c d)"
  by (simp add: progressOf_def Float_ok_def)

lemma progressOf_zero: "\<not> Float_ok (progressOf c 0)"
  by (simp add: progressOf_def Float_ok_def)

text \<open>
  What the transaction of \<^verbatim>\<open>completeDailyPlan\<close> writes, for a day and a plan that were
  read from the state, the plan's duration not being 0: it succeeds; every row of the table of daily plans keeps its key,
  plan and day number, is completed afterwards iff it was before or has the key \<open>i\<close>, and
  stays unlocked if it was; the row found for the next day number, if the day is not the
  last, is unlocked; the plan gets the new progress, current day and activity, computed
  from the number of completed rows of the plan in the new table.
\<close>

lemma completeDailyPlan_transaction_effect:
  assumes day: "dailyPlan_findUnique db i = Some dailyPlan"
    and plan: "learningPlan_findUnique db (learningPlanId dailyPlan) = Some learningPlan"
    and nz: "durationDays learningPlan \<noteq> 0"
  shows "\<exists>db' h.
      completeDailyPlan_transaction db i dailyPlan learningPlan =
        Some (dailyPlan\<lparr>isCompleted := True\<rparr>, db')
    \<and> dailyPlans db' = map h (dailyPlans db)
    \<and> (\<forall>r. dp_id (h r) = dp_id r \<and> learningPlanId (h r) = learningPlanId r
           \<and> dayNumber (h r) = dayNumber r
           \<and> isCompleted (h r) = (isCompleted r \<or> dp_id r = i)
           \<and> (isUnlocked r \<longrightarrow> isUnlocked (h r)))
    \<and> (dayNumber dailyPlan < durationDays learningPlan \<longrightarrow>
         (\<forall>nd. dailyPlan_findFirst db (learningPlanId dailyPlan) (dayNumber dailyPlan + 1) = Some nd
            \<longrightarrow> isUnlocked (h nd)))
    \<and> learningPlans db' =
         map (\<lambda>p. if lp_id p = learningPlanId dailyPlan
                   then p\<lparr>progress :=
                            progressOf (length (filter (\<lambda>d. learningPlanId d = learningPlanId dailyPlan
                                                          \<and> isCompleted d) (dailyPlans db')))
                              (durationDays learningPlan),
                          currentDay := min (dayNumber dailyPlan + 1) (durationDays learningPlan),
                          isActive := (int (length (filter (\<lambda>d. learningPlanId d = learningPlanId dailyPlan
                                                          \<and> isCompleted d) (dailyPlans db')))
                                       < durationDays learningPlan)\<rparr>
                   else p) (learningPlans db)"
proof -
  let ?pid = "learningPlanId dailyPlan"
  let ?N = "dayNumber dailyPlan"
  let ?d = "durationDays learningPlan"
  let ?h1 = "\<lambda>r. if dp_id r = i then r\<lparr>isCompleted := True\<rparr> else r"
  define tx1 where "tx1 = db\<lparr>dailyPlans := map ?h1 (dailyPlans db)\<rparr>"
  from day have fnd: "find (\<lambda>d. dp_id d = i) (dailyPlans db) = Some dailyPlan"
    by (simp add: dailyPlan_findUnique_def)
  then have u1: "dailyPlan_update db i (\<lambda>d. d\<lparr>isCompleted := True\<rparr>) =
      Some (dailyPlan\<lparr>isCompleted := True\<rparr>, tx1)"
    by (simp add: dailyPlan_update_def tx1_def)
  have ff1: "dailyPlan_findFirst tx1 ?pid n = map_option ?h1 (dailyPlan_findFirst db ?pid n)" for n
    unfolding dailyPlan_findFirst_def tx1_def
    by (simp add: find_map_preserved)
  have lp1: "learningPlans tx1 = learningPlans db"
    by (simp add: tx1_def)
  from plan have pfnd: "find (\<lambda>p. lp_id p = ?pid) (learningPlans db) = Some learningPlan"
    by (simp add: learningPlan_findUnique_def)
  \<comment> \<open>the second write, if any, written as a function on the rows\<close>
  obtain tx2 h where
    step2: "(if ?N < ?d
             then (case dailyPlan_findFirst tx1 ?pid (?N + 1) of
                     None \<Rightarrow> Some tx1
                   | Some nextDay \<Rightarrow>
                       map_option snd
                         (dailyPlan_update tx1 (dp_id nextDay) (\<lambda>d. d\<lparr>isUnlocked := True\<rparr>)))
             else Some tx1) = Some tx2"
    and d2: "dailyPlans tx2 = map h (dailyPlans db)"
    and l2: "learningPlans tx2 = learningPlans db"
    and hprops: "\<forall>r. dp_id (h r) = dp_id r \<and> learningPlanId (h r) = learningPlanId r
           \<and> dayNumber (h r) = dayNumber r
           \<and> isCompleted (h r) = (isCompleted r \<or> dp_id r = i)
           \<and> (isUnlocked r \<longrightarrow> isUnlocked (h r))"
    and hnext: "?N < ?d \<longrightarrow>
         (\<forall>nd. dailyPlan_findFirst db ?pid (?N + 1) = Some nd \<longrightarrow> isUnlocked (h nd))"
  proof (cases "?N < ?d \<and> dailyPlan_findFirst db ?pid (?N + 1) \<noteq> None")
    case False
    then have "(if ?N < ?d
             then (case dailyPlan_findFirst tx1 ?pid (?N + 1) of
                     None \<Rightarrow> Some tx1
                   | Some nextDay \<Rightarrow>
                       map_option snd
                         (dailyPlan_update tx1 (dp_id nextDay) (\<lambda>d. d\<lparr>isUnlocked := True\<rparr>)))
             else Some tx1) = Some tx1"
      by (auto simp: ff1)
    moreover have "dailyPlans tx1 = map ?h1 (dailyPlans db)"
      by (simp add: tx1_def)
    moreover have "\<forall>r. dp_id (?h1 r) = dp_id r \<and> learningPlanId (?h1 r) = learningPlanId r
           \<and> dayNumber (?h1 r) = dayNumber r
           \<and> isCompleted (?h1 r) = (isCompleted r \<or> dp_id r = i)
           \<and> (isUnlocked r \<longrightarrow> isUnlocked (?h1 r))"
      by simp
    moreover have "?N < ?d \<longrightarrow>
         (\<forall>nd. dailyPlan_findFirst db ?pid (?N + 1) = Some nd \<longrightarrow> isUnlocked (?h1 nd))"
      using False by auto
    ultimately show ?thesis
      using that[of tx1 ?h1] lp1 by blast
  next
    case True
    then obtain nd where lt: "?N < ?d"
      and nd: "dailyPlan_findFirst db ?pid (?N + 1) = Some nd"
      by auto
    let ?k = "dp_id nd"
    let ?h2 = "\<lambda>r. if dp_id r = ?k then r\<lparr>isUnlocked := True\<rparr> else r"
    let ?h = "\<lambda>r. ?h2 (?h1 r)"
    define tx2 where "tx2 = tx1\<lparr>dailyPlans := map ?h2 (dailyPlans tx1)\<rparr>"
    have nd1: "dailyPlan_findFirst tx1 ?pid (?N + 1) = Some (?h1 nd)"
      by (simp add: ff1 nd)
    from nd have "nd \<in> set (dailyPlans db)"
      unfolding dailyPlan_findFirst_def by (rule find_Some_holds[THEN conjunct2])
    then have "?h1 nd \<in> set (dailyPlans tx1)"
      by (simp add: tx1_def)
    then have "find (\<lambda>d. dp_id d = ?k) (dailyPlans tx1) \<noteq> None"
      by (auto simp: find_None_iff)
    then obtain x where "find (\<lambda>d. dp_id d = ?k) (dailyPlans tx1) = Some x"
      by blast
    then have "map_option snd (dailyPlan_update tx1 ?k (\<lambda>d. d\<lparr>isUnlocked := True\<rparr>)) = Some tx2"
      by (simp add: dailyPlan_update_def tx2_def)
    moreover have k: "dp_id (?h1 nd) = ?k"
      by simp
    ultimately have upd2:
      "map_option snd (dailyPlan_update tx1 (dp_id (?h1 nd)) (\<lambda>d. d\<lparr>isUnlocked := True\<rparr>)) = Some tx2"
      by (simp only:)
    have "(if ?N < ?d
             then (case dailyPlan_findFirst tx1 ?pid (?N + 1) of
                     None \<Rightarrow> Some tx1
                   | Some nextDay \<Rightarrow>
                       map_option snd
                         (dailyPlan_update tx1 (dp_id nextDay) (\<lambda>d. d\<lparr>isUnlocked := True\<rparr>)))
             else Some tx1) = Some tx2"
      by (simp only: lt if_True nd1 option.case upd2)
    moreover have "dailyPlans tx2 = map ?h (dailyPlans db)"
      by (simp add: tx2_def tx1_def)
    moreover have "learningPlans tx2 = learningPlans db"
      by (simp add: tx2_def tx1_def)
    moreover have "\<forall>r. dp_id (?h r) = dp_id r \<and> learningPlanId (?h r) = learningPlanId r
           \<and> dayNumber (?h r) = dayNumber r
           \<and> isCompleted (?h r) = (isCompleted r \<or> dp_id r = i)
           \<and> (isUnlocked r \<longrightarrow> isUnlocked (?h r))"
      by simp
    moreover have "?N < ?d \<longrightarrow>
         (\<forall>nd'. dailyPlan_findFirst db ?pid (?N + 1) = Some nd' \<longrightarrow> isUnlocked (?h nd'))"
      using nd by simp
    ultimately show ?thesis
      using that[of tx2 ?h] by blast
  qed
  let ?c = "length (filter (\<lambda>d. learningPlanId d = ?pid \<and> isCompleted d) (dailyPlans tx2))"
  let ?w = "\<lambda>p. p\<lparr>progress := progressOf ?c ?d, currentDay := min (?N + 1) ?d,
                   isActive := (int ?c < ?d)\<rparr>"
  define tx3 where
    "tx3 = tx2\<lparr>learningPlans := map (\<lambda>p. if lp_id p = ?pid then ?w p else p) (learningPlans tx2)\<rparr>"
  have u3: "learningPlan_update tx2 ?pid ?w = Some (?w learningPlan, tx3)"
    using pfnd by (simp add: learningPlan_update_def l2 tx3_def)
  have d3: "dailyPlans tx3 = dailyPlans tx2"
    by (simp add: tx3_def)
  have res: "completeDailyPlan_transaction db i dailyPlan learningPlan =
      Some (dailyPlan\<lparr>isCompleted := True\<rparr>, tx3)"
    unfolding completeDailyPlan_transaction_def
    by (simp only: u1 option.case prod.case step2 Let_def Float_ok_progressOf[OF nz] if_True u3
          option.map)
  have l3: "learningPlans tx3 = map (\<lambda>p. if lp_id p = ?pid then
        p\<lparr>progress := progressOf (length (filter (\<lambda>d. learningPlanId d = ?pid \<and> isCompleted d) (dailyPlans tx3))) ?d,
          currentDay := min (?N + 1) ?d,
          isActive := (int (length (filter (\<lambda>d. learningPlanId d = ?pid \<and> isCompleted d) (dailyPlans tx3))) < ?d)\<rparr>
        else p) (learningPlans db)"
    by (simp add: tx3_def l2)
  have d3': "dailyPlans tx3 = map h (dailyPlans db)"
    by (simp add: d3 d2)
  from res d3' hprops hnext l3 show ?thesis
    by (intro exI[of _ tx3] exI[of _ h] conjI)
qed

text \<open>
  \<^verbatim>\<open>completeDailyPlan\<close> on an unlocked day of the requester's plan whose three flags hold,
  the plan's duration not being 0: it returns the day, completed, and leaves the state
  that the transaction wrote.
\<close>

lemma completeDailyPlan_effect:
  assumes day: "dailyPlan_findUnique db i = Some dailyPlan"
    and plan: "learningPlan_findUnique db (learningPlanId dailyPlan) = Some learningPlan"
    and nz: "durationDays learningPlan \<noteq> 0"
    and owner: "lp_userId learningPlan = userId"
    and unl: "isUnlocked dailyPlan"
    and gates: "allResourcesCompleted db dailyPlan userId" "quizCompleted db dailyPlan userId"
      "interviewCompleted db dailyPlan userId"
  shows "\<exists>db' day' plan'.
      completeDailyPlan db i userId = (Inr (dailyPlan\<lparr>isCompleted := True\<rparr>), db')
    \<and> dailyPlan_findUnique db' i = Some day'
    \<and> dayNumber day' = dayNumber dailyPlan \<and> learningPlanId day' = learningPlanId dailyPlan
    \<and> isCompleted day'
    \<and> (dayNumber dailyPlan < durationDays learningPlan \<longrightarrow>
         (\<forall>nd. dailyPlan_findFirst db (learningPlanId dailyPlan) (dayNumber dailyPlan + 1) = Some nd
            \<longrightarrow> (\<exists>nd'. dailyPlan_findFirst db' (learningPlanId dailyPlan) (dayNumber dailyPlan + 1)
                          = Some nd' \<and> dp_id nd' = dp_id nd \<and> isUnlocked nd')))
    \<and> learningPlan_findUnique db' (learningPlanId dailyPlan) = Some plan'
    \<and> currentDay plan' = min (dayNumber dailyPlan + 1) (durationDays learningPlan)
    \<and> progress plan' =
        progressOf (length (filter (\<lambda>d. learningPlanId d = learningPlanId dailyPlan \<and> isCompleted d)
                              (dailyPlans db')))
          (durationDays learningPlan)
    \<and> isActive plan' =
        (int (length (filter (\<lambda>d. learningPlanId d = learningPlanId dailyPlan \<and> isCompleted d)
                        (dailyPlans db')))
         < durationDays learningPlan)
    \<and> durationDays plan' = durationDays learningPlan
    \<and> map (\<lambda>r. (dp_id r, learningPlanId r, dayNumber r)) (dailyPlans db') =
        map (\<lambda>r. (dp_id r, learningPlanId r, dayNumber r)) (dailyPlans db)
    \<and> map (\<lambda>r. (learningPlanId r, isCompleted r)) (dailyPlans db') =
        map (\<lambda>r. (learningPlanId r, isCompleted r \<or> dp_id r = i)) (dailyPlans db)"
proof -
  let ?pid = "learningPlanId dailyPlan"
  from completeDailyPlan_transaction_effect[OF day plan nz] obtain db' h where
    tx: "completeDailyPlan_transaction db i dailyPlan learningPlan =
           Some (dailyPlan\<lparr>isCompleted := True\<rparr>, db')"
    and d': "dailyPlans db' = map h (dailyPlans db)"
    and h: "\<And>r. dp_id (h r) = dp_id r" "\<And>r. learningPlanId (h r) = learningPlanId r"
      "\<And>r. dayNumber (h r) = dayNumber r"
      "\<And>r. isCompleted (h r) = (isCompleted r \<or> dp_id r = i)"
    and hnext: "dayNumber dailyPlan < durationDays learningPlan \<longrightarrow>
         (\<forall>nd. dailyPlan_findFirst db ?pid (dayNumber dailyPlan + 1) = Some nd \<longrightarrow> isUnlocked (h nd))"
    and l': "learningPlans db' =
         map (\<lambda>p. if lp_id p = ?pid
                   then p\<lparr>progress :=
                            progressOf (length (filter (\<lambda>d. learningPlanId d = ?pid \<and> isCompleted d)
                                                  (dailyPlans db')))
                              (durationDays learningPlan),
                          currentDay := min (dayNumber dailyPlan + 1) (durationDays learningPlan),
                          isActive := (int (length (filter (\<lambda>d. learningPlanId d = ?pid \<and> isCompleted d)
                                                      (dailyPlans db')))
                                       < durationDays learningPlan)\<rparr>
                   else p) (learningPlans db)"
    by blast
  let ?w = "\<lambda>p. p\<lparr>progress :=
                            progressOf (length (filter (\<lambda>d. learningPlanId d = ?pid \<and> isCompleted d)
                                                  (dailyPlans db')))
                              (durationDays learningPlan),
                          currentDay := min (dayNumber dailyPlan + 1) (durationDays learningPlan),
                          isActive := (int (length (filter (\<lambda>d. learningPlanId d = ?pid \<and> isCompleted d)
                                                      (dailyPlans db')))
                                       < durationDays learningPlan)\<rparr>"
  have res: "completeDailyPlan db i userId = (Inr (dailyPlan\<lparr>isCompleted := True\<rparr>), db')"
    using owner unl gates by (simp add: completeDailyPlan_def day plan tx)
  have fu: "dailyPlan_findUnique db' i = Some (h dailyPlan)"
    using day by (simp add: dailyPlan_findUnique_def d' find_map_preserved h)
  have ff: "dailyPlan_findFirst db' ?pid n = map_option h (dailyPlan_findFirst db ?pid n)" for n
    by (simp add: dailyPlan_findFirst_def d' find_map_preserved h)
  from plan have pf: "find (\<lambda>p. lp_id p = ?pid) (learningPlans db) = Some learningPlan"
    by (simp add: learningPlan_findUnique_def)
  then have pid: "lp_id learningPlan = ?pid"
    by (rule find_Some_holds[THEN conjunct1])
  have "find (\<lambda>p. lp_id p = ?pid) (map (\<lambda>p. if lp_id p = ?pid then ?w p else p) (learningPlans db)) =
          map_option (\<lambda>p. if lp_id p = ?pid then ?w p else p)
            (find (\<lambda>p. lp_id p = ?pid) (learningPlans db))"
    by (rule find_map_preserved) simp
  then have pu: "learningPlan_findUnique db' ?pid = Some (?w learningPlan)"
    unfolding learningPlan_findUnique_def l' by (simp add: pf pid)
  have nxt: "dayNumber dailyPlan < durationDays learningPlan \<longrightarrow>
         (\<forall>nd. dailyPlan_findFirst db ?pid (dayNumber dailyPlan + 1) = Some nd
            \<longrightarrow> (\<exists>nd'. dailyPlan_findFirst db' ?pid (dayNumber dailyPlan + 1) = Some nd'
                   \<and> dp_id nd' = dp_id nd \<and> isUnlocked nd'))"
    using hnext by (simp add: ff h)
  have keys: "map (\<lambda>r. (dp_id r, learningPlanId r, dayNumber r)) (dailyPlans db') =
        map (\<lambda>r. (dp_id r, learningPlanId r, dayNumber r)) (dailyPlans db)"
    by (simp add: d' h)
  have compl: "map (\<lambda>r. (learningPlanId r, isCompleted r)) (dailyPlans db') =
        map (\<lambda>r. (learningPlanId r, isCompleted r \<or> dp_id r = i)) (dailyPlans db)"
    by (simp add: d' h)
  from day have "dp_id dailyPlan = i"
    unfolding dailyPlan_findUnique_def by (rule find_Some_holds[THEN conjunct1])
  then have hd: "dayNumber (h dailyPlan) = dayNumber dailyPlan"
    "learningPlanId (h dailyPlan) = ?pid" "isCompleted (h dailyPlan)"
    by (simp_all add: h)
  have pw: "currentDay (?w learningPlan) = min (dayNumber dailyPlan + 1) (durationDays learningPlan)"
    "progress (?w learningPlan) =
        progressOf (length (filter (\<lambda>d. learningPlanId d = ?pid \<and> isCompleted d) (dailyPlans db')))
          (durationDays learningPlan)"
    "isActive (?w learningPlan) =
        (int (length (filter (\<lambda>d. learningPlanId d = ?pid \<and> isCompleted d) (dailyPlans db')))
         < durationDays learningPlan)"
    "durationDays (?w learningPlan) = durationDays learningPlan"
    by simp_all
  from res fu hd nxt pu pw keys compl show ?thesis
    by (intro exI[of _ db'] exI[of _ "h dailyPlan"] exI[of _ "?w learningPlan"] conjI)
qed

text \<open>
  Completing day \<open>N < durationDays\<close> whose next day has a row, the duration not being 0:
  the day is completed, the
  next day is unlocked, the plan's current day is \<open>N + 1\<close>, and its progress is the value
  of \<^verbatim>\<open>Math.round((completedDaysCount / totalDays) * 100)\<close> at the number of completed
  rows of the plan in the new state.
\<close>

lemma completeDailyPlan_next_day:
  assumes day: "dailyPlan_findUnique db i = Some dailyPlan"
    and plan: "learningPlan_findUnique db (learningPlanId dailyPlan) = Some learningPlan"
    and nz: "durationDays learningPlan \<noteq> 0"
    and owner: "lp_userId learningPlan = userId"
    and unl: "isUnlocked dailyPlan"
    and gates: "allResourcesCompleted db dailyPlan userId" "quizCompleted db dailyPlan userId"
      "interviewCompleted db dailyPlan userId"
    and notlast: "dayNumber dailyPlan < durationDays learningPlan"
    and nextrow: "dailyPlan_findFirst db (learningPlanId dailyPlan) (dayNumber dailyPlan + 1) =
                    Some nextDay"
  shows "\<exists>completed db' day' next' plan'.
      completeDailyPlan db i userId = (Inr completed, db')
    \<and> dailyPlan_findUnique db' i = Some day'
    \<and> dayNumber day' = dayNumber dailyPlan \<and> isCompleted day'
    \<and> dailyPlan_findFirst db' (learningPlanId dailyPlan) (dayNumber dailyPlan + 1) = Some next'
    \<and> isUnlocked next'
    \<and> learningPlan_findUnique db' (learningPlanId dailyPlan) = Some plan'
    \<and> currentDay plan' = dayNumber dailyPlan + 1
    \<and> progress plan' =
        progressOf (length (filter (\<lambda>d. learningPlanId d = learningPlanId dailyPlan \<and> isCompleted d)
                              (dailyPlans db')))
          (durationDays learningPlan)"
proof -
  from completeDailyPlan_effect[OF day plan nz owner unl gates] obtain db' day' plan' where
    e: "completeDailyPlan db i userId = (Inr (dailyPlan\<lparr>isCompleted := True\<rparr>), db')"
      "dailyPlan_findUnique db' i = Some day'"
      "dayNumber day' = dayNumber dailyPlan" "isCompleted day'"
      "dayNumber dailyPlan < durationDays learningPlan \<longrightarrow>
         (\<forall>nd. dailyPlan_findFirst db (learningPlanId dailyPlan) (dayNumber dailyPlan + 1) = Some nd
            \<longrightarrow> (\<exists>nd'. dailyPlan_findFirst db' (learningPlanId dailyPlan) (dayNumber dailyPlan + 1)
                          = Some nd' \<and> dp_id nd' = dp_id nd \<and> isUnlocked nd'))"
      "learningPlan_findUnique db' (learningPlanId dailyPlan) = Some plan'"
      "currentDay plan' = min (dayNumber dailyPlan + 1) (durationDays learningPlan)"
      "progress plan' =
        progressOf (length (filter (\<lambda>d. learningPlanId d = learningPlanId dailyPlan \<and> isCompleted d)
                              (dailyPlans db')))
          (durationDays learningPlan)"
    by blast
  from e(5) notlast nextrow obtain next' where
    n: "dailyPlan_findFirst db' (learningPlanId dailyPlan) (dayNumber dailyPlan + 1) = Some next'"
      "isUnlocked next'"
    by blast
  have "currentDay plan' = dayNumber dailyPlan + 1"
    using e(7) notlast by simp
  with e(1,2,3,4,6,8) n show ?thesis
    by (intro exI conjI)
qed

text \<open>
  Claim C2: after a successful \<^verbatim>\<open>completeDailyPlan\<close> on day \<open>N < durationDays\<close>, day \<open>N\<close> is
  completed, day \<open>N + 1\<close> is unlocked, the current day is \<open>N + 1\<close> and the progress is
  \<open>100 * completedDaysCount / durationDays\<close> rounded. The code at a concrete input: in the
  forty-day plan with the days 1 to 22 completed, completing day 23 succeeds, leaves 23
  completed days and the current day 24, and stores the progress 57, whereas
  \<open>100 * 23 / 40 = 57.5\<close> rounds to 58. The quotient 23 / 40 is not a double, and the
  double product falls below 57.5.
\<close>

theorem completeDailyPlan_progress_forty_day_plan:
  "fst (completeDailyPlan forty_day_plan 23 7) =
     Inr \<lparr>dp_id = 23, learningPlanId = 0, dayNumber = 23, isUnlocked = True,
          isCompleted = True, mockInterviewId = None\<rparr>
   \<and> length (filter (\<lambda>d. learningPlanId d = 0 \<and> isCompleted d)
               (dailyPlans (snd (completeDailyPlan forty_day_plan 23 7)))) = 23
   \<and> learningPlans (snd (completeDailyPlan forty_day_plan 23 7)) =
       [\<lparr>lp_id = 0, lp_userId = 7, track = FAANG, durationDays = 40,
         isActive = True, currentDay = 24, progress = Num 57\<rparr>]
   \<and> Math_round (100 * 23 / 40) = 58"
  unfolding forty_day_plan_eq by code_simp

theorem completeDailyPlan_progress_forty_day_plan_witness:
  "map progress (learningPlans (snd (completeDailyPlan forty_day_plan 23 7))) = [Num 57]
   \<and> Num 57 \<noteq> Num (of_int (Math_round (100 * 23 / 40)))"
  using completeDailyPlan_progress_forty_day_plan by simp

lemma length_filter_map_eq:
  assumes "map a xs' = map b xs"
  shows "length (filter (\<lambda>x. P (a x)) xs') = length (filter (\<lambda>x. P (b x)) xs)"
proof -
  have "length (filter (\<lambda>x. P (a x)) xs') = length (filter P (map a xs'))"
    by (simp add: filter_map comp_def)
  also have "\<dots> = length (filter P (map b xs))"
    by (simp only: assms)
  also have "\<dots> = length (filter (\<lambda>x. P (b x)) xs)"
    by (simp add: filter_map comp_def)
  finally show ?thesis .
qed

lemma to_double_1: "to_double 1 = 1"
  by code_simp

lemma to_double_100: "to_double 100 = 100"
  by code_simp

lemma Math_round_100: "Math_round 100 = 100"
  by code_simp

lemma progressOf_all: "int c = d \<Longrightarrow> d \<noteq> 0 \<Longrightarrow> progressOf c d = Num 100"
proof -
  assume c: "int c = d" and d: "d \<noteq> 0"
  have "(of_nat c :: rat) / of_int d = 1"
    using c d by auto
  then show ?thesis
    using d by (simp add: progressOf_def to_double_1 to_double_100 Math_round_100)
qed

text \<open>
  Claim C4, as stated: after completing the last day the plan is inactive with progress
  100. In the three-day plan whose day 3 was unlocked by a progress update, completing
  day 3 succeeds and leaves the plan active with progress 33: the days 1 and 2 are open.
\<close>

theorem completeDailyPlan_last_day_counterexample:
  "map (\<lambda>p. (durationDays p, currentDay p)) (learningPlans last_day_unlocked) = [(3, 3)]
   \<and> fst (completeDailyPlan last_day_unlocked 3 7) =
       Inr \<lparr>dp_id = 3, learningPlanId = 0, dayNumber = 3, isUnlocked = True,
            isCompleted = True, mockInterviewId = None\<rparr>
   \<and> learningPlans (snd (completeDailyPlan last_day_unlocked 3 7)) =
       [\<lparr>lp_id = 0, lp_userId = 7, track = FAANG, durationDays = 3,
         isActive = True, currentDay = 3, progress = Num 33\<rparr>]"
  by code_simp

text \<open>
  Claim C4, amended. For a plan that has \<open>durationDays\<close> rows, all completed except
  possibly the day with \<open>dayNumber = durationDays\<close>, a successful \<^verbatim>\<open>completeDailyPlan\<close> on
  that day leaves the plan inactive with progress 100 (and current day \<open>durationDays\<close>).
\<close>

theorem completeDailyPlan_last_day:
  assumes day: "dailyPlan_findUnique db i = Some dailyPlan"
    and plan: "learningPlan_findUnique db (learningPlanId dailyPlan) = Some learningPlan"
    and owner: "lp_userId learningPlan = userId"
    and unl: "isUnlocked dailyPlan"
    and gates: "allResourcesCompleted db dailyPlan userId" "quizCompleted db dailyPlan userId"
      "interviewCompleted db dailyPlan userId"
    and last: "dayNumber dailyPlan = durationDays learningPlan"
    and rows: "int (length (filter (\<lambda>r. learningPlanId r = learningPlanId dailyPlan) (dailyPlans db)))
                 = durationDays learningPlan"
    and others: "\<forall>r\<in>set (dailyPlans db).
                   learningPlanId r = learningPlanId dailyPlan \<and> dp_id r \<noteq> i \<longrightarrow> isCompleted r"
  shows "\<exists>completed db' plan'.
      completeDailyPlan db i userId = (Inr completed, db')
    \<and> learningPlan_findUnique db' (learningPlanId dailyPlan) = Some plan'
    \<and> \<not> isActive plan' \<and> progress plan' = Num 100
    \<and> currentDay plan' = durationDays learningPlan"
proof -
  let ?pid = "learningPlanId dailyPlan"
  from day have "dailyPlan \<in> set (dailyPlans db)"
    unfolding dailyPlan_findUnique_def by (rule find_Some_holds[THEN conjunct2])
  then have "filter (\<lambda>r. learningPlanId r = ?pid) (dailyPlans db) \<noteq> []"
    by (auto simp: filter_empty_conv)
  with rows have d: "durationDays learningPlan \<noteq> 0"
    by auto
  from completeDailyPlan_effect[OF day plan d owner unl gates] obtain db' plan' where
    e: "completeDailyPlan db i userId = (Inr (dailyPlan\<lparr>isCompleted := True\<rparr>), db')"
      "learningPlan_findUnique db' ?pid = Some plan'"
      "currentDay plan' = min (dayNumber dailyPlan + 1) (durationDays learningPlan)"
      "progress plan' =
        progressOf (length (filter (\<lambda>d. learningPlanId d = ?pid \<and> isCompleted d) (dailyPlans db')))
          (durationDays learningPlan)"
      "isActive plan' =
        (int (length (filter (\<lambda>d. learningPlanId d = ?pid \<and> isCompleted d) (dailyPlans db')))
         < durationDays learningPlan)"
      "map (\<lambda>r. (learningPlanId r, isCompleted r)) (dailyPlans db') =
        map (\<lambda>r. (learningPlanId r, isCompleted r \<or> dp_id r = i)) (dailyPlans db)"
    by blast
  let ?c = "length (filter (\<lambda>d. learningPlanId d = ?pid \<and> isCompleted d) (dailyPlans db'))"
  have "?c = length (filter (\<lambda>r. learningPlanId r = ?pid \<and> (isCompleted r \<or> dp_id r = i))
                       (dailyPlans db))"
    using length_filter_map_eq[OF e(6), of "\<lambda>(p, c). p = ?pid \<and> c"] by simp
  also have "filter (\<lambda>r. learningPlanId r = ?pid \<and> (isCompleted r \<or> dp_id r = i)) (dailyPlans db) =
      filter (\<lambda>r. learningPlanId r = ?pid) (dailyPlans db)"
    using others by (intro filter_cong refl) blast
  finally have c: "int ?c = durationDays learningPlan"
    using rows by simp
  have "progress plan' = Num 100"
    using e(4) progressOf_all[OF c d] by simp
  moreover have "\<not> isActive plan'"
    using e(5) c by simp
  moreover have "currentDay plan' = durationDays learningPlan"
    using e(3) last by simp
  ultimately show ?thesis
    using e(1,2) by (intro exI conjI)
qed

theorem completeDailyPlan_last_day_witness:
  "dailyPlan_findUnique two_days_done 3 =
     Some \<lparr>dp_id = 3, learningPlanId = 0, dayNumber = 3, isUnlocked = True,
           isCompleted = False, mockInterviewId = None\<rparr>
   \<and> learningPlan_findUnique two_days_done 0 =
     Some \<lparr>lp_id = 0, lp_userId = 7, track = FAANG, durationDays = 3,
           isActive = True, currentDay = 3, progress = Num 67\<rparr>
   \<and> map (\<lambda>r. (learningPlanId r, dayNumber r, isCompleted r)) (dailyPlans two_days_done) =
       [(0, 1, True), (0, 2, True), (0, 3, False)]
   \<and> (\<exists>completed db' plan'.
        completeDailyPlan two_days_done 3 7 = (Inr completed, db')
      \<and> learningPlan_findUnique db' 0 = Some plan'
      \<and> \<not> isActive plan' \<and> progress plan' = Num 100 \<and> currentDay plan' = 3)"
proof -
  let ?D = "\<lparr>dp_id = 3, learningPlanId = 0, dayNumber = 3, isUnlocked = True,
           isCompleted = False, mockInterviewId = None\<rparr>"
  let ?P = "\<lparr>lp_id = 0, lp_userId = 7, track = FAANG, durationDays = 3,
           isActive = True, currentDay = 3, progress = Num 67\<rparr>"
  have day: "dailyPlan_findUnique two_days_done 3 = Some ?D"
    by (simp add: two_days_done_eq dailyPlan_findUnique_def)
  have plan: "learningPlan_findUnique two_days_done (learningPlanId ?D) = Some ?P"
    by (simp add: two_days_done_eq learningPlan_findUnique_def)
  have owner: "lp_userId ?P = 7" and unl: "isUnlocked ?D"
    and last: "dayNumber ?D = durationDays ?P"
    by simp_all
  have gates: "allResourcesCompleted two_days_done ?D 7" "quizCompleted two_days_done ?D 7"
    "interviewCompleted two_days_done ?D 7"
    by (simp_all add: two_days_done_eq flag_defs)
  have rows: "int (length (filter (\<lambda>r. learningPlanId r = learningPlanId ?D)
                             (dailyPlans two_days_done))) = durationDays ?P"
    by (simp add: two_days_done_eq)
  have others: "\<forall>r\<in>set (dailyPlans two_days_done).
                   learningPlanId r = learningPlanId ?D \<and> dp_id r \<noteq> 3 \<longrightarrow> isCompleted r"
    by (simp add: two_days_done_eq)
  from completeDailyPlan_last_day [OF day plan owner unl gates last rows others]
  have "\<exists>completed db' plan'.
        completeDailyPlan two_days_done 3 7 = (Inr completed, db')
      \<and> learningPlan_findUnique db' 0 = Some plan'
      \<and> \<not> isActive plan' \<and> progress plan' = Num 100 \<and> currentDay plan' = 3"
    by simp
  moreover have "map (\<lambda>r. (learningPlanId r, dayNumber r, isCompleted r)) (dailyPlans two_days_done) =
       [(0, 1, True), (0, 2, True), (0, 3, False)]"
    by (simp add: two_days_done_eq)
  ultimately show ?thesis
    using day plan by simp
qed




text \<open>On a plan whose duration is 0 the progress is not finite and the call fails.\<close>

lemma completeDailyPlan_duration_zero:
  assumes "dailyPlan_findUnique db i = Some dailyPlan"
    and "learningPlan_findUnique db (learningPlanId dailyPlan) = Some learningPlan"
    and "durationDays learningPlan = 0"
    and "lp_userId learningPlan = userId"
  shows "\<exists>e. completeDailyPlan db i userId = (Inl e, db)"
proof -
  have "completeDailyPlan_transaction db i dailyPlan learningPlan = None"
    using assms(3)
    by (auto simp: completeDailyPlan_transaction_def Let_def progressOf_zero
          split: option.splits prod.splits)
  then show ?thesis
    using assms by (simp add: completeDailyPlan_def)
qed

section \<open>The current day and the duration\<close>

text \<open>
  The two other writers of \<^verbatim>\<open>currentDay\<close> keep it within the duration:
  \<^verbatim>\<open>completeDailyPlan\<close> by the minimum it takes, \<^verbatim>\<open>updateLearningPlanProgress\<close> by its
  range check. \<^verbatim>\<open>updateLearningPlan\<close> keeps it when the new duration, if any, is not
  below the current day.
\<close>

lemma completeDailyPlan_currentDay_in_range:
  assumes "dailyPlan_findUnique db i = Some dailyPlan"
    and "learningPlan_findUnique db (learningPlanId dailyPlan) = Some learningPlan"
    and "durationDays learningPlan \<noteq> 0"
    and "lp_userId learningPlan = userId"
    and "isUnlocked dailyPlan"
    and "allResourcesCompleted db dailyPlan userId" "quizCompleted db dailyPlan userId"
      "interviewCompleted db dailyPlan userId"
  shows "\<exists>completed db' plan'.
      completeDailyPlan db i userId = (Inr completed, db')
    \<and> learningPlan_findUnique db' (learningPlanId dailyPlan) = Some plan'
    \<and> currentDay plan' \<le> durationDays plan'"
proof -
  from completeDailyPlan_effect[OF assms] obtain db' plan' where
    e: "completeDailyPlan db i userId = (Inr (dailyPlan\<lparr>isCompleted := True\<rparr>), db')"
      "learningPlan_findUnique db' (learningPlanId dailyPlan) = Some plan'"
      "currentDay plan' = min (dayNumber dailyPlan + 1) (durationDays learningPlan)"
      "durationDays plan' = durationDays learningPlan"
    by blast
  then have "currentDay plan' \<le> durationDays plan'"
    by simp
  with e(1,2) show ?thesis
    by (intro exI conjI)
qed

lemma lp_id_write_progressData: "lp_id (write_progressData u q) = lp_id q"
  by (simp add: write_progressData_def)

lemma updateLearningPlanProgress_currentDay_in_range:
  assumes plan: "learningPlan_findUnique db i = Some existingPlan"
    and inv: "currentDay existingPlan \<le> durationDays existingPlan"
  shows "\<exists>plan'. learningPlan_findUnique (snd (updateLearningPlanProgress db i userId progressData)) i
                 = Some plan'
           \<and> currentDay plan' \<le> durationDays plan'"
proof (cases "lp_userId existingPlan \<noteq> userId \<or>
    (case pd_currentDay progressData of None \<Rightarrow> False
     | Some n \<Rightarrow> n < 1 \<or> n > durationDays existingPlan)")
  case True
  then have "snd (updateLearningPlanProgress db i userId progressData) = db"
    by (auto simp: updateLearningPlanProgress_def plan)
  with plan inv show ?thesis by simp
next
  case False
  define db1 where "db1 = (case pd_currentDay progressData of
                         None \<Rightarrow> db
                       | Some n \<Rightarrow> if n \<noteq> 0 \<and> n > currentDay existingPlan
                                   then unlockDailyPlan_ofDay db i n else db)"
  have "learningPlans db1 = learningPlans db"
    by (simp add: db1_def unlockDailyPlan_ofDay_def dailyPlan_updateMany_def split: option.splits)
  with plan have plan1: "learningPlan_findUnique db1 i = Some existingPlan"
    by (simp add: learningPlan_findUnique_def)
  from learningPlan_update_found[OF plan1, of "write_progressData progressData"]
  obtain db2 where
    upd: "learningPlan_update db1 i (write_progressData progressData) =
            Some (write_progressData progressData existingPlan, db2)"
    and p2: "learningPlan_findUnique db2 i = Some (write_progressData progressData existingPlan)"
    using lp_id_write_progressData by blast
  have res: "snd (updateLearningPlanProgress db i userId progressData) =
      (if valid_progressData progressData then db2 else db1)"
    using False by (simp add: updateLearningPlanProgress_def plan db1_def[symmetric] upd Let_def)
  have new: "currentDay (write_progressData progressData existingPlan)
      \<le> durationDays (write_progressData progressData existingPlan)"
    using False inv by (auto simp: write_progressData_def split: option.splits)
  show ?thesis
  proof (cases "valid_progressData progressData")
    case True
    with res p2 new show ?thesis by simp
  next
    case False
    with res plan1 inv show ?thesis by simp
  qed
qed

lemma createDays_learningPlans:
  "createDays unl pid day lastDay tx = Some tx' \<Longrightarrow> learningPlans tx' = learningPlans tx"
proof (induction unl pid day lastDay tx rule: createDays.induct)
  case (1 unl pid day lastDay tx)
  show ?case
  proof (cases "day \<le> lastDay")
    case False
    with "1.prems" show ?thesis
      by (subst (asm) createDays.simps) simp
  next
    case True
    with "1.prems" obtain tx1 where
      c: "dailyPlan_create tx pid day (unl day) False = Some tx1"
      and r: "createDays unl pid (day + 1) lastDay tx1 = Some tx'"
      by (subst (asm) createDays.simps) (auto split: option.splits)
    from c have "learningPlans tx1 = learningPlans tx"
      by (auto simp: dailyPlan_create_def split: if_splits)
    with "1.IH"[OF True c r] show ?thesis
      by simp
  qed
qed

lemma updateLearningPlan_currentDay_in_range:
  assumes plan: "learningPlan_findUnique db i = Some existingPlan"
    and inv: "currentDay existingPlan \<le> durationDays existingPlan"
    and ok: "case ud_durationDays updateData of None \<Rightarrow> True
             | Some n \<Rightarrow> currentDay existingPlan \<le> n"
  shows "\<exists>plan'. learningPlan_findUnique (snd (updateLearningPlan db i userId updateData)) i
                 = Some plan'
           \<and> currentDay plan' \<le> durationDays plan'"
proof -
  let ?f = "write_updateData updateData"
  from learningPlan_update_found[OF plan, of ?f] obtain tx where
    upd: "learningPlan_update db i ?f = Some (?f existingPlan, tx)"
    and ptx: "learningPlan_findUnique tx i = Some (?f existingPlan)"
    using lp_id_write_updateData by blast
  have new: "currentDay (?f existingPlan) \<le> durationDays (?f existingPlan)"
    using inv ok by (auto simp: write_updateData_def split: option.splits)
  have keep: "\<exists>plan'. learningPlan_findUnique db i = Some plan' \<and> currentDay plan' \<le> durationDays plan'"
    using plan inv by simp
  have changed: "\<exists>plan'. learningPlan_findUnique tx' i = Some plan' \<and> currentDay plan' \<le> durationDays plan'"
    if "learningPlans tx' = learningPlans tx" for tx'
    using that ptx new by (simp add: learningPlan_findUnique_def)
  have hdc: "\<exists>plan'. learningPlan_findUnique (snd (handleDurationChange db i D1 D2 updateData)) i
                 = Some plan' \<and> currentDay plan' \<le> durationDays plan'" for D1 D2
  proof (cases "valid_updateData updateData \<and> Date_ok (endDate_of db D2)")
    case False
    then have "snd (handleDurationChange db i D1 D2 updateData) = db"
      by (auto simp: handleDurationChange_def)
    with keep show ?thesis by simp
  next
    case ok: True
    consider (grow) "D1 < D2" | (shrink) "D2 < D1" | (same) "D1 = D2"
      by linarith
    then show ?thesis
    proof cases
      case grow
      show ?thesis
      proof (cases "createDays (\<lambda>day. False) i (D1 + 1) D2 tx")
        case None
        with grow have "snd (handleDurationChange db i D1 D2 updateData) = db"
          by (simp add: handleDurationChange_def ok upd)
        with keep show ?thesis by simp
      next
        case (Some tx')
        then have l: "learningPlans tx' = learningPlans tx"
          by (rule createDays_learningPlans)
        then have "learningPlan_findUnique tx' i = Some (?f existingPlan)"
          using ptx by (simp add: learningPlan_findUnique_def)
        with grow Some have "snd (handleDurationChange db i D1 D2 updateData) = tx'"
          by (simp add: handleDurationChange_def ok upd)
        with changed[OF l] show ?thesis by simp
      qed
    next
      case shrink
      define tx' where
        "tx' = dailyPlan_deleteMany tx (\<lambda>d. learningPlanId d = i \<and> dayNumber d > D2)"
      have l: "learningPlans tx' = learningPlans tx"
        by (simp add: tx'_def dailyPlan_deleteMany_def Let_def)
      then have "learningPlan_findUnique tx' i = Some (?f existingPlan)"
        using ptx by (simp add: learningPlan_findUnique_def)
      with shrink have "snd (handleDurationChange db i D1 D2 updateData) = tx'"
        by (simp add: handleDurationChange_def ok upd tx'_def[symmetric])
      with changed[OF l] show ?thesis by simp
    next
      case same
      with ptx have "snd (handleDurationChange db i D1 D2 updateData) = tx"
        by (simp add: handleDurationChange_def ok upd)
      with changed[of tx] show ?thesis by simp
    qed
  qed
  show ?thesis
  proof (cases "lp_userId existingPlan \<noteq> userId")
    case True
    then have "snd (updateLearningPlan db i userId updateData) = db"
      by (simp add: updateLearningPlan_def plan)
    with keep show ?thesis by simp
  next
    case False
    show ?thesis
    proof (cases "case ud_durationDays updateData of None \<Rightarrow> False
                   | Some n \<Rightarrow> n \<noteq> 0 \<and> n \<noteq> durationDays existingPlan")
      case True
      with False have "updateLearningPlan db i userId updateData =
          handleDurationChange db i (durationDays existingPlan) (the (ud_durationDays updateData))
            updateData"
        by (simp add: updateLearningPlan_def plan)
      with hdc show ?thesis by simp
    next
      case nodur: False
      show ?thesis
      proof (cases "valid_updateData updateData")
        case True
        with False nodur have "snd (updateLearningPlan db i userId updateData) = tx"
          by (simp add: updateLearningPlan_def plan upd)
        with changed[of tx] show ?thesis by simp
      next
        case invalid: False
        with False nodur have "snd (updateLearningPlan db i userId updateData) = db"
          by (simp add: updateLearningPlan_def plan)
        with keep show ?thesis by simp
      qed
    qed
  qed
qed

text \<open>
  Claim C3: every operation keeps \<open>currentDay \<le> durationDays\<close>, a decrease of the
  duration included. The code at a concrete input: the five-day plan after a progress
  update to day 4 has current day 4 and duration 5; \<^verbatim>\<open>updateLearningPlan\<close> with
  \<^verbatim>\<open>durationDays: 2\<close> succeeds, removes the days 3 to 5 and leaves the current day at
  4, above the new duration 2: \<^verbatim>\<open>handleDurationChange\<close> writes the duration and does not
  touch \<^verbatim>\<open>currentDay\<close>.
\<close>

theorem updateLearningPlan_shrink_below_current_day:
  "map (\<lambda>p. (currentDay p, durationDays p)) (learningPlans five_day_plan_at_4) = [(4, 5)]
   \<and> fst (updateLearningPlan five_day_plan_at_4 0 7
            \<lparr>ud_track = None, ud_durationDays = Some 2, ud_isActive = None\<rparr>) =
       Inr (\<lparr>lp_id = 0, lp_userId = 7, track = FAANG, durationDays = 2,
             isActive = True, currentDay = 4, progress = Num 0\<rparr>,
            [\<lparr>dp_id = 1, learningPlanId = 0, dayNumber = 1, isUnlocked = True,
              isCompleted = False, mockInterviewId = None\<rparr>,
             \<lparr>dp_id = 2, learningPlanId = 0, dayNumber = 2, isUnlocked = False,
              isCompleted = False, mockInterviewId = None\<rparr>])
   \<and> map (\<lambda>p. (currentDay p, durationDays p))
         (learningPlans (snd (updateLearningPlan five_day_plan_at_4 0 7
            \<lparr>ud_track = None, ud_durationDays = Some 2, ud_isActive = None\<rparr>))) = [(4, 2)]"
  by code_simp

theorem updateLearningPlan_shrink_below_current_day_witness:
  "list_all (\<lambda>p. currentDay p \<le> durationDays p) (learningPlans five_day_plan_at_4)
   \<and> \<not> list_all (\<lambda>p. currentDay p \<le> durationDays p)
         (learningPlans (snd (updateLearningPlan five_day_plan_at_4 0 7
            \<lparr>ud_track = None, ud_durationDays = Some 2, ud_isActive = None\<rparr>)))"
proof -
  have conv: "list_all (\<lambda>p. currentDay p \<le> durationDays p) xs =
        list_all (\<lambda>(c, d). c \<le> d) (map (\<lambda>p. (currentDay p, durationDays p)) xs)" for xs
    by (induction xs) auto
  from updateLearningPlan_shrink_below_current_day
  have before: "map (\<lambda>p. (currentDay p, durationDays p)) (learningPlans five_day_plan_at_4) = [(4, 5)]"
    and after: "map (\<lambda>p. (currentDay p, durationDays p))
         (learningPlans (snd (updateLearningPlan five_day_plan_at_4 0 7
            \<lparr>ud_track = None, ud_durationDays = Some 2, ud_isActive = None\<rparr>))) = [(4, 2)]"
    by (rule conjunct1, rule conjunct2[THEN conjunct2])
  show ?thesis
    unfolding conv before after by simp
qed


end
